theory Spec2Isabelle
  imports Complex_Main
begin

section \<open>JavaScript strings\<close>

text \<open>
  A JavaScript string is modelled as a \<^typ>\<open>string\<close>: one \<^typ>\<open>char\<close> per UTF-16 code
  unit. The ASCII values stand for themselves; the other values stand for code units that
  are neither white space nor letters with a lower-case form, so \<open>trim\<close>, \<open>toLowerCase\<close>
  and the character classes of the regular expressions act on ASCII only.
  An optional value (\<open>x?: string\<close>) is an \<^typ>\<open>'a option\<close>, \<open>None\<close> for \<open>undefined\<close>.
\<close>

definition isWhiteSpace :: "char \<Rightarrow> bool" where
  "isWhiteSpace c = (c \<in> set [CHR 0x09, CHR 0x0A, CHR 0x0B, CHR 0x0C, CHR 0x0D, CHR '' ''])"

definition trim :: "string \<Rightarrow> string" where
  "trim s = rev (dropWhile isWhiteSpace (rev (dropWhile isWhiteSpace s)))"

definition lowerChar :: "char \<Rightarrow> char" where
  "lowerChar c =
     (case map_of (zip ''ABCDEFGHIJKLMNOPQRSTUVWXYZ'' ''abcdefghijklmnopqrstuvwxyz'') c of
        Some l \<Rightarrow> l
      | None \<Rightarrow> c)"

definition toLowerCase :: "string \<Rightarrow> string" where
  "toLowerCase s = map lowerChar s"

definition startsWith :: "string \<Rightarrow> string \<Rightarrow> bool" where
  "startsWith s p = (take (length p) s = p)"

text \<open>\<open>xs.join(sep)\<close>.\<close>

fun join :: "string \<Rightarrow> string list \<Rightarrow> string" where
  "join sep [] = []"
| "join sep [x] = x"
| "join sep (x # y # ys) = x @ sep @ join sep (y # ys)"

text \<open>The truth value of an optional string: \<open>undefined\<close> and \<open>''\<close> are falsy.\<close>

fun truthy :: "string option \<Rightarrow> bool" where
  "truthy None = False"
| "truthy (Some s) = (s \<noteq> [])"

section \<open>The built-in \<open>Map\<close>\<close>

text \<open>
  A \<open>Map<string, V>\<close> keeps its keys in insertion order; \<open>set\<close> on a key that is present
  replaces the value in place.
\<close>

type_synonym 'v jsMap = "(string \<times> 'v) list"

fun Map_get :: "'v jsMap \<Rightarrow> string \<Rightarrow> 'v option" where
  "Map_get [] k = None"
| "Map_get ((k', v) # m) k = (if k' = k then Some v else Map_get m k)"

fun Map_set :: "string \<Rightarrow> 'v \<Rightarrow> 'v jsMap \<Rightarrow> 'v jsMap" where
  "Map_set k v [] = [(k, v)]"
| "Map_set k v ((k', v') # m) = (if k' = k then (k, v) # m else (k', v') # Map_set k v m)"

fun Map_delete :: "string \<Rightarrow> 'v jsMap \<Rightarrow> 'v jsMap" where
  "Map_delete k [] = []"
| "Map_delete k ((k', v') # m) = (if k' = k then Map_delete k m else (k', v') # Map_delete k m)"

definition Map_has :: "'v jsMap \<Rightarrow> string \<Rightarrow> bool" where
  "Map_has m k = (Map_get m k \<noteq> None)"

definition Map_keys :: "'v jsMap \<Rightarrow> string list" where
  "Map_keys m = map fst m"

section \<open>Providers and errors (providers/types.ts)\<close>

record ProviderConfig =
  apiKey :: string
  baseUrl :: "string option"
  timeout :: "nat option"
  maxRetries :: "nat option"
  customHeaders :: "(string \<times> string) list option"

record MultiProviderConfig =
  providersOf :: "(string \<times> ProviderConfig) list"
  defaultProvider :: "string option"
  defaultModel :: "string option"

text \<open>
  A provider object, as far as the registry and the resolver look at it: what \<open>getName()\<close>
  and \<open>getSupportedModels()\<close> return and the configuration captured at construction
  (none for the \<open>MockProvider\<close> of the registry's unit tests). Two provider objects are
  told apart by these values.
\<close>

record LLMProvider =
  getName :: string
  getSupportedModels :: "string list"
  capturedConfig :: "ProviderConfig option"

definition MockProvider :: "string \<Rightarrow> string list \<Rightarrow> LLMProvider" where
  "MockProvider name models =
     \<lparr>getName = name, getSupportedModels = models, capturedConfig = None\<rparr>"

datatype errorClass =
  AuthenticationErrorC | RateLimitErrorC | NetworkErrorC | ValidationErrorC | ProviderErrorC

record LLMError =
  errClass :: errorClass
  message :: string
  provider :: string
  code :: string
  statusCode :: "nat option"

definition AuthenticationError :: "string \<Rightarrow> string \<Rightarrow> nat option \<Rightarrow> LLMError" where
  "AuthenticationError msg prov status =
     \<lparr>errClass = AuthenticationErrorC, message = msg, provider = prov,
      code = ''AUTHENTICATION_ERROR'', statusCode = status\<rparr>"

definition RateLimitError :: "string \<Rightarrow> string \<Rightarrow> nat option \<Rightarrow> LLMError" where
  "RateLimitError msg prov status =
     \<lparr>errClass = RateLimitErrorC, message = msg, provider = prov,
      code = ''RATE_LIMIT_ERROR'', statusCode = status\<rparr>"

definition NetworkError :: "string \<Rightarrow> string \<Rightarrow> nat option \<Rightarrow> LLMError" where
  "NetworkError msg prov status =
     \<lparr>errClass = NetworkErrorC, message = msg, provider = prov,
      code = ''NETWORK_ERROR'', statusCode = status\<rparr>"

definition ValidationError :: "string \<Rightarrow> string \<Rightarrow> nat option \<Rightarrow> LLMError" where
  "ValidationError msg prov status =
     \<lparr>errClass = ValidationErrorC, message = msg, provider = prov,
      code = ''VALIDATION_ERROR'', statusCode = status\<rparr>"

definition ProviderError :: "string \<Rightarrow> string \<Rightarrow> string \<Rightarrow> nat option \<Rightarrow> LLMError" where
  "ProviderError msg prov c status =
     \<lparr>errClass = ProviderErrorC, message = msg, provider = prov, code = c, statusCode = status\<rparr>"

text \<open>What a \<open>throw\<close> carries: a plain \<open>Error\<close> with its message, a normalized error, or a
  value that is not an \<open>Error\<close>.\<close>

datatype exn = Error string | Thrown LLMError | NonError

section \<open>The provider registry (providers/index.ts)\<close>

record ProviderRegistry =
  providers :: "LLMProvider jsMap"
  modelToProvider :: "string jsMap"
  defaultProviderName :: "string option"

definition emptyRegistry :: ProviderRegistry where
  "emptyRegistry = \<lparr>providers = [], modelToProvider = [], defaultProviderName = None\<rparr>"

text \<open>\<open>register\<close>: the provider argument is \<open>None\<close> for \<open>null\<close> or \<open>undefined\<close>.\<close>

definition register :: "LLMProvider option \<Rightarrow> string \<Rightarrow> ProviderRegistry \<Rightarrow> exn + ProviderRegistry" where
  "register p name r =
     (case p of
        None \<Rightarrow> Inl (Error ''Provider cannot be null or undefined'')
      | Some prov \<Rightarrow>
          if name = [] \<or> length (trim name) = 0 then Inl (Error ''Provider name cannot be empty'')
          else Inr (r\<lparr>providers := Map_set name prov (providers r),
                      modelToProvider :=
                        fold (\<lambda>model m. Map_set model name m) (getSupportedModels prov)
                          (modelToProvider r)\<rparr>))"

definition get :: "string \<Rightarrow> ProviderRegistry \<Rightarrow> LLMProvider option" where
  "get name r = Map_get (providers r) name"

definition getByModel :: "string \<Rightarrow> ProviderRegistry \<Rightarrow> LLMProvider option" where
  "getByModel modelId r =
     (case Map_get (modelToProvider r) modelId of
        None \<Rightarrow> None
      | Some providerName \<Rightarrow>
          if providerName = [] then None else Map_get (providers r) providerName)"

definition list :: "ProviderRegistry \<Rightarrow> string list" where
  "list r = Map_keys (providers r)"

definition getDefault :: "ProviderRegistry \<Rightarrow> LLMProvider option" where
  "getDefault r =
     (case defaultProviderName r of
        None \<Rightarrow> None
      | Some name \<Rightarrow> if name = [] then None else Map_get (providers r) name)"

definition setDefault :: "string \<Rightarrow> ProviderRegistry \<Rightarrow> exn + ProviderRegistry" where
  "setDefault name r =
     (if \<not> Map_has (providers r) name
      then Inl (Error (''Provider \"'' @ name @ ''\" is not registered''))
      else Inr (r\<lparr>defaultProviderName := Some name\<rparr>))"

definition has :: "string \<Rightarrow> ProviderRegistry \<Rightarrow> bool" where
  "has name r = Map_has (providers r) name"

definition unregister :: "string \<Rightarrow> ProviderRegistry \<Rightarrow> bool \<times> ProviderRegistry" where
  "unregister name r =
     (case Map_get (providers r) name of
        None \<Rightarrow> (False, r)
      | Some prov \<Rightarrow>
          (True,
           r\<lparr>providers := Map_delete name (providers r),
             modelToProvider :=
               fold (\<lambda>model m. if Map_get m model = Some name then Map_delete model m else m)
                 (getSupportedModels prov) (modelToProvider r),
             defaultProviderName :=
               (if defaultProviderName r = Some name then None else defaultProviderName r)\<rparr>))"

definition clear :: "ProviderRegistry \<Rightarrow> ProviderRegistry" where
  "clear r = \<lparr>providers = [], modelToProvider = [], defaultProviderName = None\<rparr>"

text \<open>
  A sequence of registry calls. A call that throws (\<open>register\<close> with a blank name,
  \<open>setDefault\<close> of an unregistered name) has not touched the registry when it throws, so
  the caller that catches the error goes on with the registry unchanged.
\<close>

datatype registryOp =
    Register "LLMProvider option" string
  | Unregister string
  | SetDefault string
  | Clear

fun applyOp :: "registryOp \<Rightarrow> ProviderRegistry \<Rightarrow> ProviderRegistry" where
  "applyOp (Register p name) r = (case register p name r of Inl e \<Rightarrow> r | Inr r' \<Rightarrow> r')"
| "applyOp (Unregister name) r = snd (unregister name r)"
| "applyOp (SetDefault name) r = (case setDefault name r of Inl e \<Rightarrow> r | Inr r' \<Rightarrow> r')"
| "applyOp Clear r = clear r"

definition applyOps :: "registryOp list \<Rightarrow> ProviderRegistry \<Rightarrow> ProviderRegistry" where
  "applyOps ops r = fold applyOp ops r"

section \<open>Key validation of the configuration manager (config/ConfigManager.ts)\<close>

text \<open>\<open>\w\<close> of a regular expression: a letter, a digit or the underscore.\<close>

definition isWordChar :: "char \<Rightarrow> bool" where
  "isWordChar c =
     (c \<in> set ''abcdefghijklmnopqrstuvwxyzABCDEFGHIJKLMNOPQRSTUVWXYZ0123456789_'')"

text \<open>The pattern \<open>/^[a-zA-Z0-9_-]+$/\<close>.\<close>

definition qwenKeyPattern :: "string \<Rightarrow> bool" where
  "qwenKeyPattern key = (key \<noteq> [] \<and> list_all (\<lambda>c. isWordChar c \<or> c = CHR ''-'') key)"

definition validateProviderKey :: "string \<Rightarrow> string \<Rightarrow> bool" where
  "validateProviderKey prov key =
     (if key = [] \<or> length (trim key) = 0 then False
      else if toLowerCase prov = ''qwen'' then qwenKeyPattern key
      else if toLowerCase prov = ''openai'' then startsWith key ''sk-'' \<and> length key > 10
      else if toLowerCase prov = ''anthropic'' then startsWith key ''sk-ant-'' \<and> length key > 15
      else length key > 5)"

text \<open>
  The manager holds the configuration it loaded. An object used as a dictionary
  (\<open>config.providers\<close>, and \<open>MODEL_TO_PROVIDER\<close> below) has its own properties, in
  insertion order, with the operations of the built-in map on them. What the manager's
  \<open>getProviderKey\<close> and \<open>setProviderKey\<close> find under a name that is not an own property of
  \<open>config.providers\<close> is modelled with the manager, further down.
\<close>

record ConfigManager =
  config :: MultiProviderConfig

definition getAllProviders :: "ConfigManager \<Rightarrow> MultiProviderConfig" where
  "getAllProviders m = config m"

section \<open>The resolver (providers/resolver.ts)\<close>

definition MODEL_TO_PROVIDER :: "(string \<times> string) list" where
  "MODEL_TO_PROVIDER =
     [(''qwen-turbo'', ''qwen''), (''qwen-plus'', ''qwen''), (''qwen-max'', ''qwen''),
      (''qwen-max-longcontext'', ''qwen''),
      (''gpt-4o'', ''openai''), (''gpt-4-turbo'', ''openai''), (''gpt-4'', ''openai''),
      (''gpt-3.5-turbo'', ''openai''),
      (''claude-3-opus'', ''anthropic''), (''claude-3-sonnet'', ''anthropic''),
      (''claude-3-haiku'', ''anthropic''), (''claude-3-5-sonnet'', ''anthropic'')]"

text \<open>
  \<open>MODEL_TO_PROVIDER\<close> is an object literal, so besides its own entries it answers to the
  names every object inherits. After \<open>toLowerCase\<close> two of them can still be asked for;
  the model does not cover a hint that lower-cases to one of them.
\<close>

definition inheritedName :: "string \<Rightarrow> bool" where
  "inheritedName key = (key = ''constructor'' \<or> key = ''__proto__'')"

definition resolveProviderName :: "string option \<Rightarrow> ProviderRegistry \<Rightarrow> string option" where
  "resolveProviderName modelOrProvider reg =
     (if \<not> truthy modelOrProvider then None
      else if has (the modelOrProvider) reg then modelOrProvider
      else (case Map_get MODEL_TO_PROVIDER (toLowerCase (the modelOrProvider)) of
              None \<Rightarrow> None
            | Some prov \<Rightarrow> if prov = [] then None else Some prov))"

definition QwenProvider :: "ProviderConfig \<Rightarrow> LLMProvider" where
  "QwenProvider cfg =
     \<lparr>getName = ''qwen'',
      getSupportedModels = [''qwen-turbo'', ''qwen-plus'', ''qwen-max'', ''qwen-max-longcontext''],
      capturedConfig = Some cfg\<rparr>"

definition OpenAIProvider :: "ProviderConfig \<Rightarrow> LLMProvider" where
  "OpenAIProvider cfg =
     \<lparr>getName = ''openai'',
      getSupportedModels = [''gpt-4o'', ''gpt-4-turbo'', ''gpt-4'', ''gpt-3.5-turbo''],
      capturedConfig = Some cfg\<rparr>"

definition AnthropicProvider :: "ProviderConfig \<Rightarrow> LLMProvider" where
  "AnthropicProvider cfg =
     \<lparr>getName = ''anthropic'',
      getSupportedModels =
        [''claude-3-opus'', ''claude-3-5-sonnet'', ''claude-3-sonnet'', ''claude-3-haiku''],
      capturedConfig = Some cfg\<rparr>"

definition createProviderInstance :: "string \<Rightarrow> ProviderConfig \<Rightarrow> exn + LLMProvider" where
  "createProviderInstance providerName cfg =
     (if toLowerCase providerName = ''qwen'' then Inr (QwenProvider cfg)
      else if toLowerCase providerName = ''openai'' then Inr (OpenAIProvider cfg)
      else if toLowerCase providerName = ''anthropic'' then Inr (AnthropicProvider cfg)
      else Inl (Error (''Unknown provider: '' @ providerName)))"

text \<open>
  The first half of \<open>resolveProvider\<close>, up to the comment \<open>Get provider configuration\<close>:
  the choice of the provider name by priority.
\<close>

definition chooseProviderName ::
  "string option \<Rightarrow> MultiProviderConfig \<Rightarrow> ProviderRegistry \<Rightarrow> exn + string" where
  "chooseProviderName modelOrProvider effectiveConfig reg =
     (if truthy modelOrProvider \<and> \<not> truthy (resolveProviderName modelOrProvider reg)
      then Inl (Error (''Unknown model or provider: \"'' @ the modelOrProvider @ ''\". ''
                        @ ''Available providers: '' @ join '', '' (list reg)))
      else if truthy modelOrProvider then Inr (the (resolveProviderName modelOrProvider reg))
      else if truthy (defaultProvider effectiveConfig) then Inr (the (defaultProvider effectiveConfig))
      else if truthy (map_option apiKey (Map_get (providersOf effectiveConfig) ''qwen''))
      then Inr ''qwen''
      else Inl (Thrown (AuthenticationError
             ''No provider configured. Please set an API key for at least one provider.''
             ''unknown'' None)))"

text \<open>
  \<open>resolveProvider\<close> works on the registry singleton: it returns what the call returns or
  throws, and the registry after the call.
\<close>

definition resolveProvider ::
  "string option \<Rightarrow> MultiProviderConfig option \<Rightarrow> ConfigManager \<Rightarrow> ProviderRegistry
     \<Rightarrow> (exn + LLMProvider) \<times> ProviderRegistry" where
  "resolveProvider modelOrProvider cfg manager reg =
     (let effectiveConfig = (case cfg of Some c \<Rightarrow> c | None \<Rightarrow> getAllProviders manager) in
      case chooseProviderName modelOrProvider effectiveConfig reg of
        Inl e \<Rightarrow> (Inl e, reg)
      | Inr providerName \<Rightarrow>
          (case Map_get (providersOf effectiveConfig) providerName of
             None \<Rightarrow>
               (Inl (Thrown (AuthenticationError
                  (''API key not configured for provider \"'' @ providerName @ ''\". ''
                   @ ''Please set it with: xyzulu config set '' @ providerName @ ''.apiKey <key>'')
                  providerName None)), reg)
           | Some providerConfig \<Rightarrow>
               if apiKey providerConfig = [] then
                 (Inl (Thrown (AuthenticationError
                    (''API key not configured for provider \"'' @ providerName @ ''\". ''
                     @ ''Please set it with: xyzulu config set '' @ providerName @ ''.apiKey <key>'')
                    providerName None)), reg)
               else if \<not> validateProviderKey providerName (apiKey providerConfig) then
                 (Inl (Thrown (AuthenticationError
                    (''Invalid API key format for provider \"'' @ providerName @ ''\"'')
                    providerName None)), reg)
               else
                 (case get providerName reg of
                    Some prov \<Rightarrow> (Inr prov, reg)
                  | None \<Rightarrow>
                      (case createProviderInstance providerName providerConfig of
                         Inl e \<Rightarrow> (Inl e, reg)
                       | Inr prov \<Rightarrow>
                           (case register (Some prov) providerName reg of
                              Inl e \<Rightarrow> (Inl e, reg)
                            | Inr reg' \<Rightarrow> (Inr prov, reg'))))))"

text \<open>
  A registry that only the resolver has filled: every entry was made by
  \<open>createProviderInstance\<close> for the name it is registered under.
\<close>

definition resolverBuilt :: "ProviderRegistry \<Rightarrow> bool" where
  "resolverBuilt reg =
     list_all (\<lambda>(name, prov). case capturedConfig prov of
                  None \<Rightarrow> False
                | Some cfg \<Rightarrow> createProviderInstance name cfg = Inr prov) (providers reg)"

text \<open>The object literal \<open>{ apiKey: key }\<close>.\<close>

definition keyOnly :: "string \<Rightarrow> ProviderConfig" where
  "keyOnly key =
     \<lparr>apiKey = key, baseUrl = None, timeout = None, maxRetries = None, customHeaders = None\<rparr>"

section \<open>Requests and responses (providers/types.ts, providers/qwen/QwenProvider.ts)\<close>

record GenerationOptions =
  model :: "string option"
  temperature :: "real option"
  maxTokens :: "nat option"
  topP :: "real option"
  stream :: "bool option"
  stopSequences :: "string list option"

record tokenUsage =
  promptTokens :: nat
  completionTokens :: nat
  totalTokens :: nat

record LLMResponse =
  content :: string
  responseProvider :: string
  responseModel :: string
  tokensUsed :: "tokenUsage option"
  finishReason :: "string option"
  metadata :: "(string \<times> string option) list option"

record CodeContext =
  filePath :: "string option"
  language :: "string option"
  existingCode :: "string option"
  projectStructure :: "string list option"
  requirements :: "string option"

datatype fileOperation = Create | Modify | Delete

record FileChange =
  path :: string
  operation :: fileOperation
  newContent :: string
  diff :: "string option"

record CodeGenerationResult =
  generatedCode :: string
  explanation :: "string option"
  changes :: "FileChange list option"
  response :: LLMResponse

text \<open>
  \<open>DashScopeResponse\<close>: \<open>choiceMessage\<close> is the field \<open>message?: { content?: string }\<close> of a
  choice, \<open>None\<close> when the message is missing and \<open>Some None\<close> when it has no content.
\<close>

record DashScopeChoice =
  choiceMessage :: "string option option"
  finish_reason :: "string option"

record DashScopeUsage =
  input_tokens :: "nat option"
  output_tokens :: "nat option"
  total_tokens :: "nat option"

record DashScopeOutput =
  choices :: "DashScopeChoice list option"
  usage :: "DashScopeUsage option"

record DashScopeResponse =
  responseOutput :: "DashScopeOutput option"
  responseCode :: "string option"
  responseMessage :: "string option"
  request_id :: "string option"

record DashScopeParameters =
  param_temperature :: "real option"
  max_tokens :: "nat option"
  top_p :: "real option"
  stop :: "string list option"

record DashScopeRequest =
  requestModel :: string
  messages :: "(string \<times> string) list"
  parameters :: "DashScopeParameters option"

text \<open>
  What the provider sees of the network. \<open>fetch\<close> answers a request with a response, is
  aborted by the timeout, or rejects with another error. Of a response the code reads
  \<open>ok\<close>, \<open>status\<close>, the result of \<open>json()\<close> (\<open>Inl\<close> the message of the error it rejects
  with) and the body stream: the texts that the successive \<open>read()\<close> calls decode, and the
  error of the \<open>read()\<close> that fails, if one does.

  Of an error response the code reads the body for the error's metadata: \<open>json()\<close> first
  and, when that rejects, \<open>text()\<close>. \<open>textFailure\<close> is the message of the error that
  \<open>text()\<close> rejects with when it is called after \<open>json()\<close> has rejected, and \<open>None\<close> when
  it resolves; the text it resolves to goes into the metadata, which is not modelled. A
  \<open>Response\<close> of \<open>fetch\<close> has one body, which \<open>json()\<close> uses up even when it rejects, so
  there \<open>text()\<close> rejects after it; the mock response of the unit tests answers both calls.
\<close>

record bodyStream =
  reads :: "string list"
  readFailure :: "exn option"

record httpResponse =
  ok :: bool
  status :: nat
  json :: "string + DashScopeResponse"
  textFailure :: "string option"
  body :: "bodyStream option"

datatype fetchOutcome = Responded httpResponse | Aborted | Rejected exn

type_synonym endpoint = "DashScopeRequest \<Rightarrow> bool \<Rightarrow> fetchOutcome"

text \<open>The line feed and the fence of three backticks.\<close>

definition lf :: char where
  "lf = CHR 0x0A"

definition fence :: string where
  "fence = [CHR 0x60, CHR 0x60, CHR 0x60]"

text \<open>\<open>s.includes(sub)\<close> and \<open>s.split('\n')\<close>.\<close>

fun includesText :: "string \<Rightarrow> string \<Rightarrow> bool" where
  "includesText [] sub = (sub = [])"
| "includesText (c # s) sub = (startsWith (c # s) sub \<or> includesText s sub)"

fun splitLines :: "string \<Rightarrow> string list" where
  "splitLines [] = [[]]"
| "splitLines (c # s) =
     (if c = lf then [] # splitLines s
      else (case splitLines s of [] \<Rightarrow> [[c]] | l # ls \<Rightarrow> (c # l) # ls))"

text \<open>A number in a template literal: the decimal digits of a natural number.\<close>

fun showNat :: "nat \<Rightarrow> string" where
  "showNat n =
     (if n < 10 then [''0123456789'' ! n]
      else showNat (n div 10) @ [''0123456789'' ! (n mod 10)])"

declare showNat.simps [simp del]

section \<open>The Qwen provider (providers/qwen/QwenProvider.ts)\<close>

definition formatRequest :: "string \<Rightarrow> GenerationOptions \<Rightarrow> DashScopeRequest" where
  "formatRequest prompt options =
     \<lparr>requestModel = (if truthy (model options) then the (model options) else ''qwen-turbo''),
      messages = [(''user'', prompt)],
      parameters =
        (if temperature options \<noteq> None \<or> maxTokens options \<noteq> None \<or> topP options \<noteq> None
            \<or> stopSequences options \<noteq> None
         then Some \<lparr>param_temperature = temperature options,
                    max_tokens = maxTokens options,
                    top_p = topP options,
                    stop = (case stopSequences options of
                              None \<Rightarrow> None
                            | Some ss \<Rightarrow> if length ss > 0 then Some ss else None)\<rparr>
         else None)\<rparr>"

definition parseResponse :: "DashScopeResponse \<Rightarrow> string \<Rightarrow> LLMError + LLMResponse" where
  "parseResponse resp mdl =
     (let cs = (case responseOutput resp of
                  None \<Rightarrow> []
                | Some out \<Rightarrow> (case choices out of None \<Rightarrow> [] | Some l \<Rightarrow> l));
          invalid = ProviderError ''Invalid response format from DashScope API'' ''qwen''
                      ''INVALID_RESPONSE'' None
      in case cs of
           [] \<Rightarrow> Inl invalid
         | firstChoice # _ \<Rightarrow>
             (case choiceMessage firstChoice of
                None \<Rightarrow> Inl invalid
              | Some msg \<Rightarrow>
                  Inr \<lparr>content = (case msg of None \<Rightarrow> [] | Some c \<Rightarrow> c),
                       responseProvider = ''qwen'',
                       responseModel = mdl,
                       tokensUsed =
                         (case responseOutput resp of
                            None \<Rightarrow> None
                          | Some out \<Rightarrow>
                              map_option
                                (\<lambda>u. \<lparr>promptTokens = (case input_tokens u of None \<Rightarrow> 0 | Some n \<Rightarrow> n),
                                      completionTokens =
                                        (case output_tokens u of None \<Rightarrow> 0 | Some n \<Rightarrow> n),
                                      totalTokens =
                                        (case total_tokens u of None \<Rightarrow> 0 | Some n \<Rightarrow> n)\<rparr>)
                                (usage out)),
                       finishReason = finish_reason firstChoice,
                       metadata = Some [(''request_id'', request_id resp),
                                        (''code'', responseCode resp)]\<rparr>))"

definition handleError :: "exn \<Rightarrow> LLMError" where
  "handleError e =
     (case e of
        Thrown err \<Rightarrow> err
      | Error msg \<Rightarrow>
          if includesText msg ''fetch'' \<or> includesText msg ''network''
          then NetworkError (''Network error: '' @ msg) ''qwen'' None
          else ProviderError msg ''qwen'' ''UNKNOWN_ERROR'' None
      | NonError \<Rightarrow> ProviderError ''Unknown error occurred'' ''qwen'' ''UNKNOWN_ERROR'' None)"

text \<open>
  \<open>handleHttpError\<close> first reads the body of the response, \<open>try { errorData = await
  response.json() } catch { errorData = await response.text() }\<close>, and then makes the error
  from the status. When \<open>text()\<close> rejects too, its error leaves \<open>handleHttpError\<close> before the
  status is looked at: \<open>readErrorData\<close> is that error, \<open>None\<close> when one of the two reads
  resolves.
\<close>

definition readErrorData :: "httpResponse \<Rightarrow> exn option" where
  "readErrorData resp =
     (case json resp of
        Inr errorData \<Rightarrow> None
      | Inl jsonError \<Rightarrow> map_option Error (textFailure resp))"

definition handleHttpError :: "httpResponse \<Rightarrow> exn + LLMError" where
  "handleHttpError resp =
     (case readErrorData resp of
        Some e \<Rightarrow> Inl e
      | None \<Rightarrow>
          Inr (let st = status resp in
               if st = 401 \<or> st = 403
               then AuthenticationError ''Invalid or missing API key'' ''qwen'' (Some st)
               else if st = 429 then RateLimitError ''Rate limit exceeded'' ''qwen'' (Some st)
               else if st = 400
               then ValidationError ''Invalid request parameters'' ''qwen'' (Some st)
               else if st = 500 \<or> st = 502 \<or> st = 503 \<or> st = 504
               then NetworkError (''Server error: '' @ showNat st) ''qwen'' (Some st)
               else ProviderError (''HTTP error: '' @ showNat st) ''qwen''
                      (''HTTP_'' @ showNat st) (Some st)))"

text \<open>
  \<open>throw await this.handleHttpError(response)\<close> stands inside the \<open>try\<close> of an operation:
  what is thrown, the error made from the status or the error of the failed reads, is caught
  by the operation's \<open>catch\<close> and goes through \<open>handleError\<close>.
\<close>

definition makeRequest :: "endpoint \<Rightarrow> DashScopeRequest \<Rightarrow> bool \<Rightarrow> exn + httpResponse" where
  "makeRequest fetch request streaming =
     (case fetch request streaming of
        Responded r \<Rightarrow> Inr r
      | Aborted \<Rightarrow> Inl (Thrown (NetworkError ''Request timeout'' ''qwen'' None))
      | Rejected e \<Rightarrow> Inl e)"

definition sendMessage ::
  "endpoint \<Rightarrow> string \<Rightarrow> GenerationOptions \<Rightarrow> LLMError + LLMResponse" where
  "sendMessage fetch prompt options =
     (case makeRequest fetch (formatRequest prompt options) False of
        Inl e \<Rightarrow> Inl (handleError e)
      | Inr r \<Rightarrow>
          if \<not> ok r
          then (case handleHttpError r of
                  Inl e \<Rightarrow> Inl (handleError e)
                | Inr err \<Rightarrow> Inl (handleError (Thrown err)))
          else (case json r of
                  Inl msg \<Rightarrow> Inl (handleError (Error msg))
                | Inr data \<Rightarrow>
                    (case parseResponse data
                            (if truthy (model options) then the (model options) else ''qwen-turbo'') of
                       Inl e \<Rightarrow> Inl (handleError (Thrown e))
                     | Inr resp \<Rightarrow> Inr resp)))"

text \<open>
  \<open>extractCodeFromResponse\<close>. The pattern \<open>/```(?:\w+)?\n([\s\S]*?)```/g\<close> matches at a
  position where a fence is followed by the longest run of word characters and a line feed
  (a shorter run cannot be followed by the line feed); its group is the shortest text up to
  the next fence. \<open>matchAll\<close> lists the matches from the left, and the code takes the
  first.
\<close>

fun untilFence :: "string \<Rightarrow> string option" where
  "untilFence [] = None"
| "untilFence (c # s) =
     (if startsWith (c # s) fence then Some [] else map_option ((#) c) (untilFence s))"

definition matchFenceAt :: "string \<Rightarrow> string option" where
  "matchFenceAt s =
     (if startsWith s fence
      then (case dropWhile isWordChar (drop 3 s) of
              [] \<Rightarrow> None
            | c # rest \<Rightarrow> if c = lf then untilFence rest else None)
      else None)"

fun firstCodeBlock :: "string \<Rightarrow> string option" where
  "firstCodeBlock [] = None"
| "firstCodeBlock (c # s) =
     (case matchFenceAt (c # s) of Some block \<Rightarrow> Some block | None \<Rightarrow> firstCodeBlock s)"

text \<open>The loop over the lines: \<open>inCode\<close> flips at a line whose trimmed text starts with a fence.\<close>

fun codeLines :: "bool \<Rightarrow> string list \<Rightarrow> string list" where
  "codeLines inCode [] = []"
| "codeLines inCode (line # ls) =
     (if startsWith (trim line) fence then codeLines (\<not> inCode) ls
      else if inCode then line # codeLines inCode ls
      else codeLines inCode ls)"

definition extractCodeFromResponse :: "string \<Rightarrow> string option \<Rightarrow> string" where
  "extractCodeFromResponse txt lang =
     (case firstCodeBlock txt of
        Some block \<Rightarrow> trim block
      | None \<Rightarrow>
          if truthy lang \<and> length (codeLines False (splitLines txt)) > 0
          then trim (join [lf] (codeLines False (splitLines txt)))
          else trim txt)"

definition generateCode ::
  "endpoint \<Rightarrow> string \<Rightarrow> CodeContext \<Rightarrow> LLMError + CodeGenerationResult" where
  "generateCode fetch prompt context =
     (let p1 = (if truthy (filePath context)
                then ''File: '' @ the (filePath context) @ [lf, lf] @ prompt else prompt);
          p2 = (if truthy (language context)
                then ''Language: '' @ the (language context) @ [lf, lf] @ p1 else p1);
          p3 = (if truthy (existingCode context)
                then ''Existing code:'' @ [lf] @ fence
                     @ (if truthy (language context) then the (language context) else [])
                     @ [lf] @ the (existingCode context) @ [lf] @ fence @ [lf, lf] @ p2
                else p2);
          enhancedPrompt = (if truthy (requirements context)
                then ''Requirements: '' @ the (requirements context) @ [lf, lf] @ p3 else p3);
          options = \<lparr>model = Some ''qwen-turbo'', temperature = Some 0.2, maxTokens = None,
                     topP = None, stream = None, stopSequences = None\<rparr>
      in case sendMessage fetch enhancedPrompt options of
           Inl e \<Rightarrow> Inl (handleError (Thrown e))
         | Inr resp \<Rightarrow>
             Inr \<lparr>generatedCode = extractCodeFromResponse (content resp) (language context),
                  explanation =
                    (case metadata resp of
                       None \<Rightarrow> None
                     | Some md \<Rightarrow> (case Map_get md ''explanation'' of None \<Rightarrow> None | Some v \<Rightarrow> v)),
                  changes =
                    (if truthy (filePath context)
                     then Some [\<lparr>path = the (filePath context),
                                 operation = (if truthy (existingCode context) then Modify else Create),
                                 newContent =
                                   extractCodeFromResponse (content resp) (language context),
                                 diff = None\<rparr>]
                     else None),
                  response = resp\<rparr>)"

text \<open>
  \<open>streamResponse\<close>. \<open>JSON.parse\<close> is a parameter: the chunk read as a
  \<open>DashScopeResponse\<close>, or \<open>None\<close> when \<open>JSON.parse\<close> throws or gives \<open>null\<close>. Either
  that or an error of \<open>parseResponse\<close> is caught inside the loop and the chunk is passed
  over.
\<close>

definition parseChunk ::
  "(string \<Rightarrow> DashScopeResponse option) \<Rightarrow> string \<Rightarrow> string \<Rightarrow> LLMResponse option" where
  "parseChunk JSON_parse mdl chunk =
     (case JSON_parse chunk of
        None \<Rightarrow> None
      | Some parsed \<Rightarrow> (case parseResponse parsed mdl of Inl e \<Rightarrow> None | Inr resp \<Rightarrow> Some resp))"

text \<open>
  The \<open>for\<close> loop over the complete lines of the buffer: the responses it yields, and
  whether it returned at the sentinel.
\<close>

fun processLines ::
  "(string \<Rightarrow> DashScopeResponse option) \<Rightarrow> string \<Rightarrow> string list \<Rightarrow> LLMResponse list \<times> bool" where
  "processLines JSON_parse mdl [] = ([], False)"
| "processLines JSON_parse mdl (line # ls) =
     (if trim line = [] \<or> \<not> startsWith line ''data: '' then processLines JSON_parse mdl ls
      else if drop 6 line = ''[DONE]'' then ([], True)
      else (case parseChunk JSON_parse mdl (drop 6 line) of
              None \<Rightarrow> processLines JSON_parse mdl ls
            | Some resp \<Rightarrow>
                (case processLines JSON_parse mdl ls of (ys, hit) \<Rightarrow> (resp # ys, hit))))"

datatype streamEnd = ReaderDone | SentinelReached | Raised LLMError

text \<open>The \<open>while\<close> loop over the reads, with the buffer of the unfinished line.\<close>

fun readLoop ::
  "(string \<Rightarrow> DashScopeResponse option) \<Rightarrow> string \<Rightarrow> string \<Rightarrow> string list \<Rightarrow> exn option
     \<Rightarrow> LLMResponse list \<times> streamEnd" where
  "readLoop JSON_parse mdl buffer [] failure =
     ([], case failure of None \<Rightarrow> ReaderDone | Some e \<Rightarrow> Raised (handleError e))"
| "readLoop JSON_parse mdl buffer (chunk # rest) failure =
     (case processLines JSON_parse mdl (butlast (splitLines (buffer @ chunk))) of
        (ys, True) \<Rightarrow> (ys, SentinelReached)
      | (ys, False) \<Rightarrow>
          (case readLoop JSON_parse mdl (last (splitLines (buffer @ chunk))) rest failure of
             (zs, fin) \<Rightarrow> (ys @ zs, fin)))"

text \<open>What the generator yields, in order, and how it ends.\<close>

definition streamResponse ::
  "(string \<Rightarrow> DashScopeResponse option) \<Rightarrow> endpoint \<Rightarrow> string \<Rightarrow> GenerationOptions
     \<Rightarrow> LLMResponse list \<times> streamEnd" where
  "streamResponse JSON_parse fetch prompt options =
     (case makeRequest fetch (formatRequest prompt (options\<lparr>stream := Some True\<rparr>)) True of
        Inl e \<Rightarrow> ([], Raised (handleError e))
      | Inr r \<Rightarrow>
          if \<not> ok r
          then (case handleHttpError r of
                  Inl e \<Rightarrow> ([], Raised (handleError e))
                | Inr err \<Rightarrow> ([], Raised (handleError (Thrown err))))
          else (case body r of
                  None \<Rightarrow>
                    ([], Raised (handleError
                       (Thrown (NetworkError ''Response body is null'' ''qwen'' None))))
                | Some bs \<Rightarrow>
                    readLoop JSON_parse
                      (if truthy (model options) then the (model options) else ''qwen-turbo'')
                      [] (reads bs) (readFailure bs)))"

section \<open>The configuration manager (config/ConfigManager.ts)\<close>

text \<open>
  The configuration file is modelled by the JSON value its text denotes: \<open>JSON.parse\<close> of
  a text that \<open>JSON.stringify\<close> wrote gives the value back. Numbers in a configuration
  are the integers of \<open>timeout\<close> and \<open>maxRetries\<close>.
\<close>

datatype json =
    JNull
  | JBool bool
  | JNum int
  | JStr string
  | JArr "json list"
  | JObj "(string \<times> json) list"

text \<open>
  The file: not there, there but \<open>readFileSync\<close> throws, there with a text that
  \<open>JSON.parse\<close> rejects, or there with a JSON document. \<open>writeError\<close> is the message of
  the error that creating the directory or writing the file throws, \<open>None\<close> when both work.
\<close>

datatype fileState = Missing | Unreadable | Corrupt | Document json

record fileSystem =
  configFile :: fileState
  writeError :: "string option"

definition emptyConfig :: MultiProviderConfig where
  "emptyConfig = \<lparr>providersOf = [], defaultProvider = None, defaultModel = None\<rparr>"

text \<open>What \<open>JSON.stringify\<close> writes for a configuration; an \<open>undefined\<close> field is left out.\<close>

definition optionalField :: "string \<Rightarrow> ('a \<Rightarrow> json) \<Rightarrow> 'a option \<Rightarrow> (string \<times> json) list" where
  "optionalField k enc v = (case v of None \<Rightarrow> [] | Some x \<Rightarrow> [(k, enc x)])"

definition providerConfigJson :: "ProviderConfig \<Rightarrow> json" where
  "providerConfigJson pc =
     JObj ([(''apiKey'', JStr (apiKey pc))]
           @ optionalField ''baseUrl'' JStr (baseUrl pc)
           @ optionalField ''timeout'' (\<lambda>n. JNum (int n)) (timeout pc)
           @ optionalField ''maxRetries'' (\<lambda>n. JNum (int n)) (maxRetries pc)
           @ optionalField ''customHeaders'' (\<lambda>hs. JObj (map (\<lambda>(k, v). (k, JStr v)) hs))
               (customHeaders pc))"

definition configJson :: "MultiProviderConfig \<Rightarrow> json" where
  "configJson c =
     JObj ([(''providers'', JObj (map (\<lambda>(name, pc). (name, providerConfigJson pc)) (providersOf c)))]
           @ optionalField ''defaultProvider'' JStr (defaultProvider c)
           @ optionalField ''defaultModel'' JStr (defaultModel c))"

text \<open>
  The cast \<open>parsed as MultiProviderConfig\<close> is not checked at run time. The model reads a
  document of the declared type; for a document with a \<open>providers\<close> field that is not of
  that type the result is \<open>None\<close>: what the manager then holds is not modelled.
\<close>

fun optionalString :: "json option \<Rightarrow> string option option" where
  "optionalString None = Some None"
| "optionalString (Some (JStr s)) = Some (Some s)"
| "optionalString (Some _) = None"

fun optionalNat :: "json option \<Rightarrow> nat option option" where
  "optionalNat None = Some None"
| "optionalNat (Some (JNum n)) = (if 0 \<le> n then Some (Some (nat n)) else None)"
| "optionalNat (Some _) = None"

fun headerEntries :: "(string \<times> json) list \<Rightarrow> (string \<times> string) list option" where
  "headerEntries [] = Some []"
| "headerEntries ((k, JStr v) # fs) = map_option ((#) (k, v)) (headerEntries fs)"
| "headerEntries ((k, _) # fs) = None"

fun optionalHeaders :: "json option \<Rightarrow> (string \<times> string) list option option" where
  "optionalHeaders None = Some None"
| "optionalHeaders (Some (JObj fs)) = map_option Some (headerEntries fs)"
| "optionalHeaders (Some _) = None"

definition asProviderConfig :: "json \<Rightarrow> ProviderConfig option" where
  "asProviderConfig j =
     (case j of
        JObj fs \<Rightarrow>
          (case (Map_get fs ''apiKey'', optionalString (Map_get fs ''baseUrl''),
                 optionalNat (Map_get fs ''timeout''), optionalNat (Map_get fs ''maxRetries''),
                 optionalHeaders (Map_get fs ''customHeaders'')) of
             (Some (JStr k), Some b, Some t, Some r, Some h) \<Rightarrow>
               Some \<lparr>apiKey = k, baseUrl = b, timeout = t, maxRetries = r, customHeaders = h\<rparr>
           | _ \<Rightarrow> None)
      | _ \<Rightarrow> None)"

fun providerEntries :: "(string \<times> json) list \<Rightarrow> (string \<times> ProviderConfig) list option" where
  "providerEntries [] = Some []"
| "providerEntries ((name, j) # fs) =
     (case asProviderConfig j of
        None \<Rightarrow> None
      | Some pc \<Rightarrow> map_option ((#) (name, pc)) (providerEntries fs))"

definition asMultiProviderConfig :: "(string \<times> json) list \<Rightarrow> MultiProviderConfig option" where
  "asMultiProviderConfig fs =
     (case (Map_get fs ''providers'', optionalString (Map_get fs ''defaultProvider''),
            optionalString (Map_get fs ''defaultModel'')) of
        (Some (JObj ps), Some d, Some m) \<Rightarrow>
          map_option (\<lambda>entries. \<lparr>providersOf = entries, defaultProvider = d, defaultModel = m\<rparr>)
            (providerEntries ps)
      | _ \<Rightarrow> None)"

definition saveConfig :: "MultiProviderConfig \<Rightarrow> fileSystem \<Rightarrow> exn + fileSystem" where
  "saveConfig c fs =
     (case writeError fs of
        None \<Rightarrow> Inr (fs\<lparr>configFile := Document (configJson c)\<rparr>)
      | Some msg \<Rightarrow> Inl (Error (''Failed to save configuration: '' @ msg)))"

text \<open>
  The objects of the program are plain objects: a property that is not an own property is
  looked for along the prototype chain, up to \<open>Object.prototype\<close>, by a property read as
  by the \<open>in\<close> operator. The objects every object inherits from belong to the whole
  program, not to the manager. The manager writes one property on them, \<open>apiKey\<close> (in
  \<open>setProviderKey\<close>, below): \<open>prototypeApiKey\<close> is \<open>Object.prototype.apiKey\<close>, which
  every object without an own \<open>apiKey\<close> inherits, arrays, the function \<open>Object\<close> and the
  inherited methods included; \<open>inheritedApiKey\<close> holds the own \<open>apiKey\<close> of the object
  that is inherited under a name, where one has been set. In a program that has just
  started neither is set.
\<close>

record realm =
  prototypeApiKey :: "string option"
  inheritedApiKey :: "(string \<times> string) list"

definition freshRealm :: realm where
  "freshRealm = \<lparr>prototypeApiKey = None, inheritedApiKey = []\<rparr>"

text \<open>
  The property \<open>apiKey\<close> of a parsed document with the own properties \<open>props\<close>: the own
  one, or else the inherited one. \<open>'apiKey' in parsed\<close> holds when there is either.
\<close>

definition apiKeyProperty :: "(string \<times> json) list \<Rightarrow> realm \<Rightarrow> json option" where
  "apiKeyProperty props rl =
     (case Map_get props ''apiKey'' of
        Some v \<Rightarrow> Some v
      | None \<Rightarrow> map_option JStr (prototypeApiKey rl))"

text \<open>
  \<open>migrateOldConfig\<close>, on the fields of the old document. \<open>OldConfig\<close> declares \<open>apiKey\<close> and
  \<open>defaultModel\<close> as strings; a falsy value of another type (\<open>null\<close>, \<open>false\<close>, \<open>0\<close>) is
  passed over as the empty string is, and for a truthy one the result is \<open>None\<close>, as for the
  unchecked cast above.
\<close>

fun legacyString :: "json option \<Rightarrow> string option option" where
  "legacyString None = Some None"
| "legacyString (Some (JStr s)) = Some (if s = [] then None else Some s)"
| "legacyString (Some JNull) = Some None"
| "legacyString (Some (JBool b)) = (if b then None else Some None)"
| "legacyString (Some (JNum n)) = (if n = 0 then Some None else None)"
| "legacyString (Some _) = None"

definition migrateOldConfig ::
  "(string \<times> json) list \<Rightarrow> realm \<Rightarrow> fileSystem
     \<Rightarrow> exn + MultiProviderConfig option \<times> fileSystem" where
  "migrateOldConfig oldConfig rl fs =
     (case legacyString (apiKeyProperty oldConfig rl) of
        None \<Rightarrow> Inr (None, fs)
      | Some None \<Rightarrow> Inr (Some emptyConfig, fs)
      | Some (Some key) \<Rightarrow>
          (case legacyString (Map_get oldConfig ''defaultModel'') of
             None \<Rightarrow> Inr (None, fs)
           | Some dm \<Rightarrow>
               (case saveConfig \<lparr>providersOf = [(''qwen'', keyOnly key)],
                                 defaultProvider = Some ''qwen'', defaultModel = dm\<rparr> fs of
                  Inl e \<Rightarrow> Inl e
                | Inr fs' \<Rightarrow>
                    Inr (Some \<lparr>providersOf = [(''qwen'', keyOnly key)],
                               defaultProvider = Some ''qwen'', defaultModel = dm\<rparr>, fs'))))"

text \<open>
  \<open>loadConfig\<close>. Everything thrown inside its \<open>try\<close> block, the error of a failed save
  during the migration included, ends in the \<open>catch\<close> that returns the empty configuration.
  The \<open>in\<close> operator throws on a value that is not an object; an array has neither key as
  an own property, and its elements are no fields of an old configuration.
\<close>

definition loadConfig :: "fileSystem \<Rightarrow> realm \<Rightarrow> MultiProviderConfig option \<times> fileSystem" where
  "loadConfig fs rl =
     (case configFile fs of
        Missing \<Rightarrow> (Some emptyConfig, fs)
      | Unreadable \<Rightarrow> (Some emptyConfig, fs)
      | Corrupt \<Rightarrow> (Some emptyConfig, fs)
      | Document parsed \<Rightarrow>
          (case parsed of
             JObj props \<Rightarrow>
               if apiKeyProperty props rl \<noteq> None \<and> \<not> Map_has props ''providers''
               then (case migrateOldConfig props rl fs of
                       Inl e \<Rightarrow> (Some emptyConfig, fs)
                     | Inr result \<Rightarrow> result)
               else if \<not> Map_has props ''providers'' then (Some emptyConfig, fs)
               else (asMultiProviderConfig props, fs)
           | JArr elements \<Rightarrow>
               if apiKeyProperty [] rl \<noteq> None
               then (case migrateOldConfig [] rl fs of
                       Inl e \<Rightarrow> (Some emptyConfig, fs)
                     | Inr result \<Rightarrow> result)
               else (Some emptyConfig, fs)
           | _ \<Rightarrow> (Some emptyConfig, fs)))"

text \<open>The constructor: the manager that holds the loaded configuration.\<close>

definition newConfigManager :: "fileSystem \<Rightarrow> realm \<Rightarrow> ConfigManager option \<times> fileSystem" where
  "newConfigManager fs rl =
     (case loadConfig fs rl of
        (loaded, fs') \<Rightarrow> (map_option (\<lambda>c. \<lparr>config = c\<rparr>) loaded, fs'))"

text \<open>
  \<open>config.providers\<close> is a plain object (an object literal, or an object that \<open>JSON.parse\<close>
  made), and \<open>config.providers[provider]\<close> follows its prototype chain. Under a name that
  is not an own property it gives what every object inherits from \<open>Object.prototype\<close>:
  under \<open>__proto__\<close> the prototype itself, under \<open>constructor\<close> the function \<open>Object\<close>,
  under each of the other inherited names a method; under any other name \<open>undefined\<close>.
  An own property, also one of these names in a file that \<open>JSON.parse\<close> read, comes first.
\<close>

definition inheritedObjects :: "string list" where
  "inheritedObjects =
     [''constructor'', ''hasOwnProperty'', ''isPrototypeOf'', ''propertyIsEnumerable'',
      ''toLocaleString'', ''toString'', ''valueOf'', ''__defineGetter__'', ''__defineSetter__'',
      ''__lookupGetter__'', ''__lookupSetter__'']"

datatype providersEntry =
    NoEntry
  | OwnEntry ProviderConfig
  | ObjectPrototype
  | InheritedObject string

definition providersAt :: "MultiProviderConfig \<Rightarrow> string \<Rightarrow> providersEntry" where
  "providersAt c name =
     (case Map_get (providersOf c) name of
        Some pc \<Rightarrow> OwnEntry pc
      | None \<Rightarrow>
          if name = ''__proto__'' then ObjectPrototype
          else if name \<in> set inheritedObjects then InheritedObject name
          else NoEntry)"

text \<open>
  \<open>return this.config.providers[provider]?.apiKey\<close>. An entry of the configuration has
  its own \<open>apiKey\<close>, and the entries are separate objects, as they are after loading and
  after \<open>setProviderKey\<close>; an inherited object has its own \<open>apiKey\<close> once it has been
  set, and inherits the one of \<open>Object.prototype\<close> before.
\<close>

definition getProviderKey :: "string \<Rightarrow> ConfigManager \<Rightarrow> realm \<Rightarrow> string option" where
  "getProviderKey prov m rl =
     (case providersAt (config m) prov of
        NoEntry \<Rightarrow> None
      | OwnEntry pc \<Rightarrow> Some (apiKey pc)
      | ObjectPrototype \<Rightarrow> prototypeApiKey rl
      | InheritedObject name \<Rightarrow>
          (case Map_get (inheritedApiKey rl) name of
             Some key \<Rightarrow> Some key
           | None \<Rightarrow> prototypeApiKey rl))"

text \<open>
  \<open>setProviderKey\<close> makes a new entry where \<open>config.providers[provider]\<close> is \<open>undefined\<close>
  and otherwise assigns \<open>apiKey\<close> on the object found there, an entry of the configuration
  or an inherited object; then it saves the configuration, of which \<open>JSON.stringify\<close> writes
  the own properties. The result: the error if the save throws, and the manager, the
  inherited objects and the file system after the call.
\<close>

definition setProviderKey ::
  "string \<Rightarrow> string \<Rightarrow> ConfigManager \<Rightarrow> realm \<Rightarrow> fileSystem
     \<Rightarrow> exn option \<times> ConfigManager \<times> realm \<times> fileSystem" where
  "setProviderKey prov key m rl fs =
     (case (case providersAt (config m) prov of
              NoEntry \<Rightarrow>
                (m\<lparr>config := (config m)\<lparr>providersOf :=
                      Map_set prov (keyOnly key) (providersOf (config m))\<rparr>\<rparr>, rl)
            | OwnEntry pc \<Rightarrow>
                (m\<lparr>config := (config m)\<lparr>providersOf :=
                      Map_set prov (pc\<lparr>apiKey := key\<rparr>) (providersOf (config m))\<rparr>\<rparr>, rl)
            | ObjectPrototype \<Rightarrow> (m, rl\<lparr>prototypeApiKey := Some key\<rparr>)
            | InheritedObject name \<Rightarrow>
                (m, rl\<lparr>inheritedApiKey := Map_set name key (inheritedApiKey rl)\<rparr>)) of
        (m', rl') \<Rightarrow>
          (case saveConfig (config m') fs of
             Inl e \<Rightarrow> (Some e, m', rl', fs)
           | Inr fs' \<Rightarrow> (None, m', rl', fs')))"

definition getDefaultProvider :: "ConfigManager \<Rightarrow> string option" where
  "getDefaultProvider m = defaultProvider (config m)"

text \<open>
  The mock response of the provider's unit tests, with a body stream added; its \<open>text()\<close>
  resolves whenever it is called.
\<close>

definition createMockResponse ::
  "bool \<Rightarrow> nat \<Rightarrow> string + DashScopeResponse \<Rightarrow> bodyStream option \<Rightarrow> httpResponse" where
  "createMockResponse isOk st parsed bs =
     \<lparr>ok = isOk, status = st, json = parsed, textFailure = None, body = bs\<rparr>"

text \<open>
  A response as \<open>fetch\<close> gives it for an error status whose body is not JSON: \<open>json()\<close>
  rejects, and \<open>text()\<close>, called on the body that \<open>json()\<close> has used up, rejects as well.
\<close>

definition nonJsonErrorResponse :: "nat \<Rightarrow> httpResponse" where
  "nonJsonErrorResponse st =
     \<lparr>ok = False, status = st, json = Inl ''Unexpected token < in JSON at position 0'',
      textFailure = Some ''Body is unusable: Body has already been read'', body = None\<rparr>"

text \<open>The document of an error answer of the vendor: a code and a message.\<close>

definition errorDocument :: "string \<Rightarrow> string \<Rightarrow> DashScopeResponse" where
  "errorDocument c msg =
     \<lparr>responseOutput = None, responseCode = Some c, responseMessage = Some msg,
      request_id = None\<rparr>"

text \<open>A response document with one choice and its content, and nothing else.\<close>

definition oneChoice :: "string \<Rightarrow> DashScopeResponse" where
  "oneChoice txt =
     \<lparr>responseOutput =
        Some \<lparr>choices = Some [\<lparr>choiceMessage = Some (Some txt), finish_reason = None\<rparr>],
              usage = None\<rparr>,
      responseCode = None, responseMessage = None, request_id = None\<rparr>"

text \<open>An endpoint that answers every request with the same response.\<close>

definition respondWith :: "httpResponse \<Rightarrow> endpoint" where
  "respondWith r = (\<lambda>request streaming. Responded r)"

definition noOptions :: GenerationOptions where
  "noOptions = \<lparr>model = None, temperature = None, maxTokens = None, topP = None, stream = None,
                 stopSequences = None\<rparr>"

text \<open>A code context with a file path and existing code, or with nothing.\<close>

definition fileContext :: "string option \<Rightarrow> string option \<Rightarrow> CodeContext" where
  "fileContext file existing =
     \<lparr>filePath = file, language = None, existingCode = existing, projectStructure = None,
      requirements = None\<rparr>"

section \<open>The stream in the words of the specification\<close>

text \<open>
  The vendor's stream is the concatenation of the texts read. Its chunks are its complete
  lines (those ended by a line feed; what follows the last line feed is not one); a data
  chunk is the rest of a line that starts with \<open>data: \<close>; the sentinel is the data chunk
  \<open>[DONE]\<close>; a data chunk is well formed when \<open>parseChunk\<close> gives a response for it.
\<close>

definition completeLines :: "string \<Rightarrow> string list" where
  "completeLines s = butlast (splitLines s)"

definition isDataLine :: "string \<Rightarrow> bool" where
  "isDataLine line = (trim line \<noteq> [] \<and> startsWith line ''data: '')"

definition dataChunks :: "string list \<Rightarrow> string list" where
  "dataChunks ls = map (drop 6) (filter isDataLine ls)"

definition beforeSentinel :: "string list \<Rightarrow> string list" where
  "beforeSentinel chunks = takeWhile (\<lambda>c. c \<noteq> ''[DONE]'') chunks"

definition readerEnd :: "exn option \<Rightarrow> streamEnd" where
  "readerEnd failure = (case failure of None \<Rightarrow> ReaderDone | Some e \<Rightarrow> Raised (handleError e))"

text \<open>
  A stand-in for \<open>JSON.parse\<close> on three texts: two documents with one choice each and the
  empty object, which parses but has no choice; every other text is rejected.
\<close>

definition sampleChunk :: "string \<Rightarrow> string" where
  "sampleChunk txt = ''{\"output\":{\"choices\":[{\"message\":{\"content\":\"'' @ txt @ ''\"}}]}}''"

definition sampleParse :: "string \<Rightarrow> DashScopeResponse option" where
  "sampleParse s =
     (if s = sampleChunk ''Hel'' then Some (oneChoice ''Hel'')
      else if s = sampleChunk ''lo'' then Some (oneChoice ''lo'')
      else if s = ''{}''
      then Some \<lparr>responseOutput = None, responseCode = None, responseMessage = None,
                  request_id = None\<rparr>
      else None)"

text \<open>
  Three reads of a stream: a data chunk and the start of a line; the end of that line, which
  is a data chunk that is not JSON, a data chunk without a choice and a comment line; a data
  chunk, the sentinel and one more data chunk.
\<close>

definition sampleReads :: "string list" where
  "sampleReads =
     [''data: '' @ sampleChunk ''Hel'' @ [lf] @ ''da'',
      ''ta: {oops'' @ [lf] @ ''data: {}'' @ [lf] @ '': keep-alive'' @ [lf],
      ''data: '' @ sampleChunk ''lo'' @ [lf] @ ''data: [DONE]'' @ [lf]
        @ ''data: '' @ sampleChunk ''Hel'' @ [lf]]"

section \<open>Facts about the built-in \<open>Map\<close>\<close>

lemma Map_get_set: "Map_get (Map_set k v m) k' = (if k' = k then Some v else Map_get m k')"
  by (induction m) auto

lemma Map_get_delete: "Map_get (Map_delete k m) k' = (if k' = k then None else Map_get m k')"
  by (induction m) auto

lemma Map_get_index_models:
  "Map_get (fold (\<lambda>model m. Map_set model name m) ms m0) k =
     (if k \<in> set ms then Some name else Map_get m0 k)"
  by (induction ms arbitrary: m0) (auto simp: Map_get_set)

lemma Map_keys_set_present:
  "Map_get m k \<noteq> None \<Longrightarrow> Map_keys (Map_set k v m) = Map_keys m"
  by (induction m) (auto simp: Map_keys_def)

lemma trim_Nil: "trim [] = []"
  by (simp add: trim_def)

section \<open>The registry: registration and lookup by model\<close>

lemma register_ok:
  "trim name \<noteq> [] \<Longrightarrow>
   register (Some P) name r =
     Inr (r\<lparr>providers := Map_set name P (providers r),
            modelToProvider :=
              fold (\<lambda>model m. Map_set model name m) (getSupportedModels P) (modelToProvider r)\<rparr>)"
  by (auto simp: register_def trim_Nil)

text \<open>
  C4. Registering a provider \<open>P1\<close> under a non-blank name \<open>n1\<close> succeeds from every registry
  state, after which \<open>get n1\<close> is \<open>P1\<close> and \<open>getByModel M\<close> is \<open>P1\<close> for every model \<open>M\<close>
  that \<open>P1\<close> supports. A second registration of any provider \<open>P2\<close> under any non-blank
  name \<open>n2\<close> succeeds as well, whatever models the two have in common (there is no collision
  error), and then every model of \<open>P2\<close> is indexed to \<open>n2\<close> and looked up as \<open>P2\<close>: the last
  registration wins. When \<open>n2\<close> is the name \<open>n1\<close>, the registration overwrites the entry of
  \<open>n1\<close> (the list of names does not grow) and the models of \<open>P2\<close> are indexed again.
\<close>

theorem registry_last_registration_wins:
  assumes n1: "trim n1 \<noteq> []" and n2: "trim n2 \<noteq> []"
  shows "\<exists>r1 r2. register (Some P1) n1 r = Inr r1 \<and> register (Some P2) n2 r1 = Inr r2
     \<and> get n1 r1 = Some P1
     \<and> (\<forall>M \<in> set (getSupportedModels P1). getByModel M r1 = Some P1)
     \<and> get n2 r2 = Some P2
     \<and> (\<forall>M \<in> set (getSupportedModels P2).
          getByModel M r2 = Some P2 \<and> Map_get (modelToProvider r2) M = Some n2)
     \<and> (n2 = n1 \<longrightarrow> list r2 = list r1)"
proof -
  have ne1: "n1 \<noteq> []" and ne2: "n2 \<noteq> []"
    using n1 n2 by (auto simp: trim_Nil)
  let ?r1 = "r\<lparr>providers := Map_set n1 P1 (providers r),
      modelToProvider :=
        fold (\<lambda>model m. Map_set model n1 m) (getSupportedModels P1) (modelToProvider r)\<rparr>"
  let ?r2 = "?r1\<lparr>providers := Map_set n2 P2 (providers ?r1),
      modelToProvider :=
        fold (\<lambda>model m. Map_set model n2 m) (getSupportedModels P2) (modelToProvider ?r1)\<rparr>"
  have first: "register (Some P1) n1 r = Inr ?r1"
    using n1 by (rule register_ok)
  have second: "register (Some P2) n2 ?r1 = Inr ?r2"
    using n2 by (rule register_ok)
  have byName1: "get n1 ?r1 = Some P1"
    by (simp add: get_def Map_get_set)
  have byModel1: "\<forall>M \<in> set (getSupportedModels P1). getByModel M ?r1 = Some P1"
    using ne1 by (simp add: getByModel_def Map_get_index_models Map_get_set)
  have byName2: "get n2 ?r2 = Some P2"
    by (simp add: get_def Map_get_set)
  have byModel2: "\<forall>M \<in> set (getSupportedModels P2).
      getByModel M ?r2 = Some P2 \<and> Map_get (modelToProvider ?r2) M = Some n2"
    using ne2 by (simp add: getByModel_def Map_get_index_models Map_get_set)
  have sameNames: "n2 = n1 \<longrightarrow> list ?r2 = list ?r1"
    by (simp add: list_def Map_keys_set_present Map_get_set)
  from first second byName1 byModel1 byName2 byModel2 sameNames show ?thesis
    by blast
qed

theorem registry_last_registration_wins_witness:
  "trim ''alpha'' \<noteq> [] \<and> trim ''beta'' \<noteq> [] \<and>
   (\<exists>r1 r2.
      register (Some (MockProvider ''alpha'' [''m1'', ''shared''])) ''alpha'' emptyRegistry = Inr r1
    \<and> register (Some (MockProvider ''beta'' [''shared'', ''m2''])) ''beta'' r1 = Inr r2
    \<and> getByModel ''shared'' r1 = Some (MockProvider ''alpha'' [''m1'', ''shared''])
    \<and> getByModel ''shared'' r2 = Some (MockProvider ''beta'' [''shared'', ''m2'']))"
proof -
  have a: "trim ''alpha'' \<noteq> []"
    by (simp add: trim_def isWhiteSpace_def)
  have b: "trim ''beta'' \<noteq> []"
    by (simp add: trim_def isWhiteSpace_def)
  from registry_last_registration_wins [OF a b,
      of "MockProvider ''alpha'' [''m1'', ''shared'']" emptyRegistry
         "MockProvider ''beta'' [''shared'', ''m2'']"]
  show ?thesis
    using a b by (auto simp: MockProvider_def)
qed

section \<open>The registry: what the lookups can return\<close>

text \<open>
  C10. Whatever sequence of \<open>register\<close>, \<open>unregister\<close>, \<open>setDefault\<close> and \<open>clear\<close> calls
  has run, from whatever registry state, \<open>getByModel m\<close> is \<open>undefined\<close> or it is the
  provider that \<open>get n\<close> returns for a name \<open>n\<close> registered at that moment, and so is
  \<open>getDefault\<close>: both read the name-to-provider map at the time of the call, so an
  instance that was removed or replaced is out of reach.
\<close>

theorem registry_lookups_are_registered:
  "(getByModel m (applyOps ops r0) = None \<or>
      (\<exists>n. has n (applyOps ops r0) \<and> getByModel m (applyOps ops r0) = get n (applyOps ops r0)))
   \<and> (getDefault (applyOps ops r0) = None \<or>
      (\<exists>n. has n (applyOps ops r0) \<and> getDefault (applyOps ops r0) = get n (applyOps ops r0)))"
  by (auto simp: getByModel_def getDefault_def has_def get_def Map_has_def split: option.splits)

text \<open>
  An instance of it with a stale index entry: \<open>old\<close> is replaced under the same name by
  \<open>new\<close>, which does not list \<open>m-old\<close>; the entry of \<open>m-old\<close> stays in the index and resolves
  to \<open>new\<close>, the provider registered now. After \<open>unregister\<close> it resolves to nothing.
\<close>

theorem registry_lookups_are_registered_witness:
  "getByModel ''m-old''
     (applyOps [Register (Some (MockProvider ''old'' [''m-old''])) ''p'',
                Register (Some (MockProvider ''new'' [''m-new''])) ''p'',
                SetDefault ''p''] emptyRegistry)
     = Some (MockProvider ''new'' [''m-new''])
   \<and> getDefault
     (applyOps [Register (Some (MockProvider ''old'' [''m-old''])) ''p'',
                Register (Some (MockProvider ''new'' [''m-new''])) ''p'',
                SetDefault ''p''] emptyRegistry)
     = Some (MockProvider ''new'' [''m-new''])
   \<and> getByModel ''m-old''
     (applyOps [Register (Some (MockProvider ''old'' [''m-old''])) ''p'',
                Register (Some (MockProvider ''new'' [''m-new''])) ''p'',
                SetDefault ''p'', Unregister ''p''] emptyRegistry) = None
   \<and> getDefault
     (applyOps [Register (Some (MockProvider ''old'' [''m-old''])) ''p'',
                Register (Some (MockProvider ''new'' [''m-new''])) ''p'',
                SetDefault ''p'', Unregister ''p''] emptyRegistry) = None"
  using registry_lookups_are_registered [of "''m-old''"
      "[Register (Some (MockProvider ''old'' [''m-old''])) ''p'',
        Register (Some (MockProvider ''new'' [''m-new''])) ''p'',
        SetDefault ''p'']" emptyRegistry]
  by (simp add: applyOps_def register_def setDefault_def unregister_def getByModel_def
      getDefault_def emptyRegistry_def MockProvider_def trim_def isWhiteSpace_def Map_has_def)

section \<open>The resolver: choice of the provider name\<close>

lemma MODEL_TO_PROVIDER_values:
  "Map_get MODEL_TO_PROVIDER k = Some n \<Longrightarrow> n \<in> {''qwen'', ''openai'', ''anthropic''}"
  by (auto simp: MODEL_TO_PROVIDER_def split: if_splits)

text \<open>
  C1, as stated, fails for the empty string given as the hint: it is neither a registered
  name nor a model of the table, yet the call does not fail but goes on to the configured
  default, since the empty string counts as no hint.
\<close>

theorem resolveProvider_empty_hint_counterexample:
  "\<not> has '''' emptyRegistry \<and> Map_get MODEL_TO_PROVIDER (toLowerCase '''') = None
   \<and> resolveProvider (Some '''')
        (Some \<lparr>providersOf = [(''qwen'', keyOnly ''sk-abc'')], defaultProvider = Some ''qwen'',
               defaultModel = None\<rparr>)
        \<lparr>config = \<lparr>providersOf = [], defaultProvider = None, defaultModel = None\<rparr>\<rparr>
        emptyRegistry
      = (Inr (QwenProvider (keyOnly ''sk-abc'')),
         \<lparr>providers = [(''qwen'', QwenProvider (keyOnly ''sk-abc''))],
          modelToProvider =
            [(''qwen-turbo'', ''qwen''), (''qwen-plus'', ''qwen''), (''qwen-max'', ''qwen''),
             (''qwen-max-longcontext'', ''qwen'')],
          defaultProviderName = None\<rparr>)"
  by (simp add: resolveProvider_def chooseProviderName_def resolveProviderName_def has_def
      Map_has_def emptyRegistry_def MODEL_TO_PROVIDER_def toLowerCase_def keyOnly_def
      validateProviderKey_def qwenKeyPattern_def isWordChar_def lowerChar_def trim_def
      isWhiteSpace_def get_def createProviderInstance_def register_def QwenProvider_def)

text \<open>
  C1, amended. A non-empty hint that is a registered provider name is chosen as it is;
  otherwise the hint, in lower case, is looked up in the static table and the table's
  provider is chosen; when neither matches (and the lower-cased hint is not one of the two
  inherited names the model leaves out), \<open>resolveProvider\<close> throws the error
  \<open>Unknown model or provider\<close> that lists the registered names, and leaves the registry as
  it was: no lower priority is tried. With no hint, or the empty one, the name is
  \<open>config.defaultProvider\<close> when that is set and non-empty, else \<open>qwen\<close> when
  \<open>config.providers.qwen\<close> has a non-empty key, else \<open>resolveProvider\<close> throws the
  authentication error \<open>No provider configured\<close>.
\<close>

theorem resolveProvider_priority:
  "(hint \<noteq> [] \<and> has hint reg \<longrightarrow> chooseProviderName (Some hint) cfg reg = Inr hint)
 \<and> (hint \<noteq> [] \<and> \<not> has hint reg \<and> Map_get MODEL_TO_PROVIDER (toLowerCase hint) = Some n
      \<longrightarrow> chooseProviderName (Some hint) cfg reg = Inr n)
 \<and> (hint \<noteq> [] \<and> \<not> has hint reg \<and> \<not> inheritedName (toLowerCase hint)
      \<and> Map_get MODEL_TO_PROVIDER (toLowerCase hint) = None
      \<longrightarrow> resolveProvider (Some hint) (Some cfg) mgr reg =
            (Inl (Error (''Unknown model or provider: \"'' @ hint @ ''\". Available providers: ''
                          @ join '', '' (list reg))), reg))
 \<and> (\<not> truthy h0 \<and> defaultProvider cfg = Some d \<and> d \<noteq> []
      \<longrightarrow> chooseProviderName h0 cfg reg = Inr d)
 \<and> (\<not> truthy h0 \<and> \<not> truthy (defaultProvider cfg)
      \<and> Map_get (providersOf cfg) ''qwen'' = Some qc \<and> apiKey qc \<noteq> []
      \<longrightarrow> chooseProviderName h0 cfg reg = Inr ''qwen'')
 \<and> (\<not> truthy h0 \<and> \<not> truthy (defaultProvider cfg)
      \<and> \<not> truthy (map_option apiKey (Map_get (providersOf cfg) ''qwen''))
      \<longrightarrow> resolveProvider h0 (Some cfg) mgr reg =
            (Inl (Thrown (AuthenticationError
               ''No provider configured. Please set an API key for at least one provider.''
               ''unknown'' None)), reg))"
proof -
  have nonempty: "Map_get MODEL_TO_PROVIDER k \<noteq> Some []" for k
    using MODEL_TO_PROVIDER_values [of k "[]"] by auto
  show ?thesis
    by (auto simp: chooseProviderName_def resolveProviderName_def resolveProvider_def nonempty)
qed

theorem resolveProvider_priority_witness:
  "(''GPT-4o'' \<noteq> [] \<and> \<not> has ''GPT-4o'' emptyRegistry
      \<and> Map_get MODEL_TO_PROVIDER (toLowerCase ''GPT-4o'') = Some ''openai''
      \<and> chooseProviderName (Some ''GPT-4o'')
           \<lparr>providersOf = [], defaultProvider = Some ''qwen'', defaultModel = None\<rparr> emptyRegistry
          = Inr ''openai'')
 \<and> (''mistral'' \<noteq> [] \<and> \<not> has ''mistral'' emptyRegistry
      \<and> \<not> inheritedName (toLowerCase ''mistral'')
      \<and> Map_get MODEL_TO_PROVIDER (toLowerCase ''mistral'') = None
      \<and> resolveProvider (Some ''mistral'')
           (Some \<lparr>providersOf = [(''qwen'', keyOnly ''sk-abc'')], defaultProvider = Some ''qwen'',
                  defaultModel = None\<rparr>)
           \<lparr>config = \<lparr>providersOf = [], defaultProvider = None, defaultModel = None\<rparr>\<rparr>
           emptyRegistry
          = (Inl (Error ''Unknown model or provider: \"mistral\". Available providers: ''),
             emptyRegistry))
 \<and> (\<not> truthy None
      \<and> chooseProviderName None
           \<lparr>providersOf = [(''qwen'', keyOnly ''sk-abc'')], defaultProvider = Some ''openai'',
            defaultModel = None\<rparr> emptyRegistry
          = Inr ''openai'')
 \<and> (\<not> truthy (defaultProvider
           \<lparr>providersOf = [(''qwen'', keyOnly ''sk-abc'')], defaultProvider = None,
            defaultModel = None\<rparr>)
      \<and> apiKey (keyOnly ''sk-abc'') \<noteq> []
      \<and> chooseProviderName None
           \<lparr>providersOf = [(''qwen'', keyOnly ''sk-abc'')], defaultProvider = None,
            defaultModel = None\<rparr> emptyRegistry
          = Inr ''qwen'')
 \<and> resolveProvider None
      (Some \<lparr>providersOf = [], defaultProvider = None, defaultModel = None\<rparr>)
      \<lparr>config = \<lparr>providersOf = [], defaultProvider = None, defaultModel = None\<rparr>\<rparr>
      emptyRegistry
     = (Inl (Thrown (AuthenticationError
          ''No provider configured. Please set an API key for at least one provider.''
          ''unknown'' None)), emptyRegistry)"
proof -
  have unregistered: "\<not> has h emptyRegistry" for h
    by (simp add: has_def Map_has_def emptyRegistry_def)
  have lowerModel: "toLowerCase ''GPT-4o'' = ''gpt-4o''"
    by (simp add: toLowerCase_def lowerChar_def)
  have inTable: "Map_get MODEL_TO_PROVIDER (toLowerCase ''GPT-4o'') = Some ''openai''"
    by (simp add: lowerModel MODEL_TO_PROVIDER_def)
  have lowerOther: "toLowerCase ''mistral'' = ''mistral''"
    by (simp add: toLowerCase_def lowerChar_def)
  have notInTable: "Map_get MODEL_TO_PROVIDER (toLowerCase ''mistral'') = None"
    by (simp add: lowerOther MODEL_TO_PROVIDER_def)
  have notInherited: "\<not> inheritedName (toLowerCase ''mistral'')"
    by (simp add: lowerOther inheritedName_def)
  have noNames: "join '', '' (list emptyRegistry) = []"
    by (simp add: list_def Map_keys_def emptyRegistry_def)
  have key: "apiKey (keyOnly ''sk-abc'') \<noteq> []"
    by (simp add: keyOnly_def)
  have byModel: "chooseProviderName (Some ''GPT-4o'')
      \<lparr>providersOf = [], defaultProvider = Some ''qwen'', defaultModel = None\<rparr> emptyRegistry
      = Inr ''openai''"
    using resolveProvider_priority [where hint = "''GPT-4o''" and reg = emptyRegistry
        and n = "''openai''"] unregistered inTable
    by blast
  have unknown: "resolveProvider (Some ''mistral'')
      (Some \<lparr>providersOf = [(''qwen'', keyOnly ''sk-abc'')], defaultProvider = Some ''qwen'',
             defaultModel = None\<rparr>)
      \<lparr>config = \<lparr>providersOf = [], defaultProvider = None, defaultModel = None\<rparr>\<rparr>
      emptyRegistry
      = (Inl (Error ''Unknown model or provider: \"mistral\". Available providers: ''),
         emptyRegistry)"
    using resolveProvider_priority [where hint = "''mistral''" and reg = emptyRegistry
        and cfg = "\<lparr>providersOf = [(''qwen'', keyOnly ''sk-abc'')],
                  defaultProvider = Some ''qwen'', defaultModel = None\<rparr>"
        and mgr = "\<lparr>config = \<lparr>providersOf = [], defaultProvider = None,
                  defaultModel = None\<rparr>\<rparr>"]
      unregistered [of "''mistral''"] notInTable notInherited
    by (simp add: noNames)
  have byDefault: "chooseProviderName None
      \<lparr>providersOf = [(''qwen'', keyOnly ''sk-abc'')], defaultProvider = Some ''openai'',
       defaultModel = None\<rparr> emptyRegistry
      = Inr ''openai''"
    using resolveProvider_priority [where ?h0.0 = None and d = "''openai''"
        and cfg = "\<lparr>providersOf = [(''qwen'', keyOnly ''sk-abc'')],
                  defaultProvider = Some ''openai'', defaultModel = None\<rparr>"
        and reg = emptyRegistry]
    by simp
  have fallback: "chooseProviderName None
      \<lparr>providersOf = [(''qwen'', keyOnly ''sk-abc'')], defaultProvider = None,
       defaultModel = None\<rparr> emptyRegistry
      = Inr ''qwen''"
    using resolveProvider_priority [where ?h0.0 = None and qc = "keyOnly ''sk-abc''"
        and cfg = "\<lparr>providersOf = [(''qwen'', keyOnly ''sk-abc'')],
                  defaultProvider = None, defaultModel = None\<rparr>"
        and reg = emptyRegistry] key
    by simp
  have unconfigured: "resolveProvider None
      (Some \<lparr>providersOf = [], defaultProvider = None, defaultModel = None\<rparr>)
      \<lparr>config = \<lparr>providersOf = [], defaultProvider = None, defaultModel = None\<rparr>\<rparr>
      emptyRegistry
     = (Inl (Thrown (AuthenticationError
          ''No provider configured. Please set an API key for at least one provider.''
          ''unknown'' None)), emptyRegistry)"
    using resolveProvider_priority [where ?h0.0 = None and reg = emptyRegistry
        and cfg = "\<lparr>providersOf = [], defaultProvider = None, defaultModel = None\<rparr>"
        and mgr = "\<lparr>config = \<lparr>providersOf = [], defaultProvider = None,
                  defaultModel = None\<rparr>\<rparr>"]
    by simp
  have given: "''GPT-4o'' \<noteq> []" "''mistral'' \<noteq> []"
    by simp_all
  have absent: "\<not> truthy None"
    by simp
  have unset: "\<not> truthy (defaultProvider
      \<lparr>providersOf = [(''qwen'', keyOnly ''sk-abc'')], defaultProvider = None,
       defaultModel = None\<rparr>)"
    by simp
  show ?thesis
    by (intro conjI)
      (fact given unregistered inTable notInTable notInherited key absent unset
         byModel unknown byDefault fallback unconfigured)+
qed

section \<open>The resolver: credentials of the chosen provider\<close>

lemma resolverBuilt_entry:
  assumes "resolverBuilt reg" and "Map_get (providers reg) k = Some p"
  shows "\<exists>cfg. createProviderInstance k cfg = Inr p"
proof -
  have "list_all (\<lambda>(name, prov). case capturedConfig prov of None \<Rightarrow> False
            | Some cfg \<Rightarrow> createProviderInstance name cfg = Inr prov) m \<Longrightarrow>
        Map_get m k = Some p \<Longrightarrow> \<exists>cfg. createProviderInstance k cfg = Inr p" for m
    by (induction m) (auto split: if_splits option.splits)
  with assms show ?thesis
    unfolding resolverBuilt_def by blast
qed

lemma list_all_Map_set: "list_all Q m \<Longrightarrow> Q (k, v) \<Longrightarrow> list_all Q (Map_set k v m)"
  by (induction m) auto

lemma resolverBuilt_empty: "resolverBuilt emptyRegistry"
  by (simp add: resolverBuilt_def emptyRegistry_def)

lemma createProviderInstance_captures:
  "createProviderInstance name cfg = Inr prov \<Longrightarrow> capturedConfig prov = Some cfg"
  by (auto simp: createProviderInstance_def QwenProvider_def OpenAIProvider_def
      AnthropicProvider_def split: if_splits)

text \<open>The resolver keeps the registry one that only it has filled.\<close>

lemma resolveProvider_resolverBuilt:
  assumes "resolverBuilt reg"
  shows "resolverBuilt (snd (resolveProvider hint cfg mgr reg))"
proof -
  have step: "resolverBuilt reg'"
    if "createProviderInstance name pc = Inr prov" "register (Some prov) name reg = Inr reg'"
    for name pc prov reg'
  proof -
    from that(2) have reg': "reg' = reg\<lparr>providers := Map_set name prov (providers reg),
        modelToProvider := fold (\<lambda>model m. Map_set model name m) (getSupportedModels prov)
          (modelToProvider reg)\<rparr>"
      by (auto simp: register_def split: if_splits)
    show ?thesis
      using assms that(1) createProviderInstance_captures [OF that(1)]
      unfolding reg' resolverBuilt_def by (auto intro!: list_all_Map_set)
  qed
  show ?thesis
    using assms step
    by (auto simp: resolveProvider_def Let_def split: sum.splits option.splits)
qed

lemma toLowerCase_gpt4o: "toLowerCase ''gpt-4o'' = ''gpt-4o''"
  by (simp add: toLowerCase_def lowerChar_def)

lemma toLowerCase_openai: "toLowerCase ''openai'' = ''openai''"
  by (simp add: toLowerCase_def lowerChar_def)

lemma createProviderInstance_gpt4o:
  "createProviderInstance ''gpt-4o'' cfg = Inl (Error ''Unknown provider: gpt-4o'')"
  by (simp add: createProviderInstance_def toLowerCase_gpt4o)

lemma createProviderInstance_openai:
  "createProviderInstance ''openai'' cfg = Inr (OpenAIProvider cfg)"
  by (simp add: createProviderInstance_def toLowerCase_openai)

lemma resolverBuilt_no_model_name:
  assumes "resolverBuilt reg"
  shows "\<not> has ''gpt-4o'' reg"
proof
  assume "has ''gpt-4o'' reg"
  then obtain p where "Map_get (providers reg) ''gpt-4o'' = Some p"
    by (auto simp: has_def Map_has_def)
  from resolverBuilt_entry [OF assms this] show False
    by (simp add: createProviderInstance_gpt4o)
qed

lemma chooseProviderName_gpt4o:
  "\<not> has ''gpt-4o'' reg \<Longrightarrow> chooseProviderName (Some ''gpt-4o'') cfg reg = Inr ''openai''"
  by (simp add: chooseProviderName_def resolveProviderName_def toLowerCase_gpt4o
      MODEL_TO_PROVIDER_def)

lemma trim_openai: "trim ''openai'' = ''openai''"
  by (simp add: trim_def isWhiteSpace_def)

text \<open>
  C2. Whatever name \<open>n\<close> was chosen: when \<open>config.providers\<close> has no entry for \<open>n\<close>, or
  one with an empty key, \<open>resolveProvider\<close> throws the authentication error that names \<open>n\<close>
  and gives the command that sets its key; when the key is there but fails the format check
  of \<open>n\<close>, it throws the authentication error \<open>Invalid API key format\<close> for \<open>n\<close>. In a
  registry that only the resolver has filled, the hint \<open>gpt-4o\<close> without credentials for
  \<open>openai\<close> throws the authentication error that names \<open>openai\<close>, and with credentials that
  pass the format check it returns a provider whose name is \<open>openai\<close>, registered under
  that name.
\<close>

theorem resolveProvider_credentials:
  assumes built: "resolverBuilt reg"
  shows
  "(chooseProviderName hint cfg reg = Inr n
      \<and> (Map_get (providersOf cfg) n = None
          \<or> (\<exists>c. Map_get (providersOf cfg) n = Some c \<and> apiKey c = []))
      \<longrightarrow> resolveProvider hint (Some cfg) mgr reg =
            (Inl (Thrown (AuthenticationError
               (''API key not configured for provider \"'' @ n @ ''\". ''
                @ ''Please set it with: xyzulu config set '' @ n @ ''.apiKey <key>'') n None)), reg))
 \<and> (chooseProviderName hint cfg reg = Inr n
      \<and> Map_get (providersOf cfg) n = Some c \<and> apiKey c \<noteq> []
      \<and> \<not> validateProviderKey n (apiKey c)
      \<longrightarrow> resolveProvider hint (Some cfg) mgr reg =
            (Inl (Thrown (AuthenticationError
               (''Invalid API key format for provider \"'' @ n @ ''\"'') n None)), reg))
 \<and> (Map_get (providersOf cfg) ''openai'' = None
      \<longrightarrow> resolveProvider (Some ''gpt-4o'') (Some cfg) mgr reg =
            (Inl (Thrown (AuthenticationError
               (''API key not configured for provider \"openai\". ''
                @ ''Please set it with: xyzulu config set openai.apiKey <key>'')
               ''openai'' None)), reg))
 \<and> (Map_get (providersOf cfg) ''openai'' = Some oc \<and> validateProviderKey ''openai'' (apiKey oc)
      \<longrightarrow> (\<exists>p reg'. resolveProvider (Some ''gpt-4o'') (Some cfg) mgr reg = (Inr p, reg')
            \<and> getName p = ''openai'' \<and> get ''openai'' reg' = Some p))"
proof -
  have absent: "chooseProviderName hint cfg reg = Inr n
      \<and> (Map_get (providersOf cfg) n = None
          \<or> (\<exists>c. Map_get (providersOf cfg) n = Some c \<and> apiKey c = []))
      \<longrightarrow> resolveProvider hint (Some cfg) mgr reg =
            (Inl (Thrown (AuthenticationError
               (''API key not configured for provider \"'' @ n @ ''\". ''
                @ ''Please set it with: xyzulu config set '' @ n @ ''.apiKey <key>'') n None)), reg)"
    by (auto simp: resolveProvider_def)
  have badFormat: "chooseProviderName hint cfg reg = Inr n
      \<and> Map_get (providersOf cfg) n = Some c \<and> apiKey c \<noteq> []
      \<and> \<not> validateProviderKey n (apiKey c)
      \<longrightarrow> resolveProvider hint (Some cfg) mgr reg =
            (Inl (Thrown (AuthenticationError
               (''Invalid API key format for provider \"'' @ n @ ''\"'') n None)), reg)"
    by (auto simp: resolveProvider_def)
  have chosen: "chooseProviderName (Some ''gpt-4o'') cfg reg = Inr ''openai''"
    using built by (simp add: chooseProviderName_gpt4o resolverBuilt_no_model_name)
  have noCreds: "Map_get (providersOf cfg) ''openai'' = None
      \<longrightarrow> resolveProvider (Some ''gpt-4o'') (Some cfg) mgr reg =
            (Inl (Thrown (AuthenticationError
               (''API key not configured for provider \"openai\". ''
                @ ''Please set it with: xyzulu config set openai.apiKey <key>'')
               ''openai'' None)), reg)"
    using chosen by (simp add: resolveProvider_def)
  have valid: "\<exists>p reg'. resolveProvider (Some ''gpt-4o'') (Some cfg) mgr reg = (Inr p, reg')
            \<and> getName p = ''openai'' \<and> get ''openai'' reg' = Some p"
    if creds: "Map_get (providersOf cfg) ''openai'' = Some oc"
      and ok: "validateProviderKey ''openai'' (apiKey oc)"
  proof -
    have key: "apiKey oc \<noteq> []"
      using ok by (auto simp: validateProviderKey_def)
    show ?thesis
    proof (cases "get ''openai'' reg")
      case None
      let ?reg' = "reg\<lparr>providers := Map_set ''openai'' (OpenAIProvider oc) (providers reg),
          modelToProvider := fold (\<lambda>model m. Map_set model ''openai'' m)
             (getSupportedModels (OpenAIProvider oc)) (modelToProvider reg)\<rparr>"
      have registered: "register (Some (OpenAIProvider oc)) ''openai'' reg = Inr ?reg'"
        by (rule register_ok) (simp add: trim_openai)
      have result: "resolveProvider (Some ''gpt-4o'') (Some cfg) mgr reg
          = (Inr (OpenAIProvider oc), ?reg')"
        using chosen creds ok key None registered
        by (simp add: resolveProvider_def createProviderInstance_openai)
      have "getName (OpenAIProvider oc) = ''openai''"
        by (simp add: OpenAIProvider_def)
      moreover have "get ''openai'' ?reg' = Some (OpenAIProvider oc)"
        by (simp add: get_def Map_get_set)
      ultimately show ?thesis
        using result by blast
    next
      case (Some p)
      have result: "resolveProvider (Some ''gpt-4o'') (Some cfg) mgr reg = (Inr p, reg)"
        using chosen creds ok key Some by (simp add: resolveProvider_def)
      obtain c' where "createProviderInstance ''openai'' c' = Inr p"
        using resolverBuilt_entry [OF built, of "''openai''" p] Some by (auto simp: get_def)
      then have "getName p = ''openai''"
        by (auto simp: createProviderInstance_openai OpenAIProvider_def)
      then show ?thesis
        using result Some by blast
    qed
  qed
  from absent badFormat noCreds valid show ?thesis
    by blast
qed

theorem resolveProvider_credentials_witness:
  "resolverBuilt emptyRegistry
   \<and> Map_get (providersOf \<lparr>providersOf = [(''qwen'', keyOnly ''sk-abc'')],
         defaultProvider = Some ''qwen'', defaultModel = None\<rparr>) ''openai'' = None
   \<and> resolveProvider (Some ''gpt-4o'')
        (Some \<lparr>providersOf = [(''qwen'', keyOnly ''sk-abc'')], defaultProvider = Some ''qwen'',
               defaultModel = None\<rparr>)
        \<lparr>config = \<lparr>providersOf = [], defaultProvider = None, defaultModel = None\<rparr>\<rparr>
        emptyRegistry
      = (Inl (Thrown (AuthenticationError
               (''API key not configured for provider \"openai\". ''
                @ ''Please set it with: xyzulu config set openai.apiKey <key>'')
               ''openai'' None)), emptyRegistry)
   \<and> validateProviderKey ''openai'' (apiKey (keyOnly ''sk-0123456789''))
   \<and> (\<exists>p reg'. resolveProvider (Some ''gpt-4o'')
        (Some \<lparr>providersOf = [(''openai'', keyOnly ''sk-0123456789'')], defaultProvider = None,
               defaultModel = None\<rparr>)
        \<lparr>config = \<lparr>providersOf = [], defaultProvider = None, defaultModel = None\<rparr>\<rparr>
        emptyRegistry = (Inr p, reg')
      \<and> getName p = ''openai'' \<and> get ''openai'' reg' = Some p)
   \<and> chooseProviderName None
        \<lparr>providersOf = [(''openai'', keyOnly ''sk-0'')], defaultProvider = Some ''openai'',
         defaultModel = None\<rparr> emptyRegistry = Inr ''openai''
   \<and> \<not> validateProviderKey ''openai'' (apiKey (keyOnly ''sk-0''))
   \<and> resolveProvider None
        (Some \<lparr>providersOf = [(''openai'', keyOnly ''sk-0'')], defaultProvider = Some ''openai'',
               defaultModel = None\<rparr>)
        \<lparr>config = \<lparr>providersOf = [], defaultProvider = None, defaultModel = None\<rparr>\<rparr>
        emptyRegistry
      = (Inl (Thrown (AuthenticationError ''Invalid API key format for provider \"openai\"''
               ''openai'' None)), emptyRegistry)"
proof -
  have noOpenai: "Map_get (providersOf \<lparr>providersOf = [(''qwen'', keyOnly ''sk-abc'')],
         defaultProvider = Some ''qwen'', defaultModel = None\<rparr>) ''openai'' = None"
    by simp
  have goodKey: "validateProviderKey ''openai'' (apiKey (keyOnly ''sk-0123456789''))"
    by (simp add: validateProviderKey_def keyOnly_def toLowerCase_openai trim_def
        isWhiteSpace_def startsWith_def)
  have badKey: "\<not> validateProviderKey ''openai'' (apiKey (keyOnly ''sk-0''))"
    by (simp add: validateProviderKey_def keyOnly_def toLowerCase_openai trim_def
        isWhiteSpace_def startsWith_def)
  have chosen: "chooseProviderName None
        \<lparr>providersOf = [(''openai'', keyOnly ''sk-0'')], defaultProvider = Some ''openai'',
         defaultModel = None\<rparr> emptyRegistry = Inr ''openai''"
    by (simp add: chooseProviderName_def)
  have missing: "resolveProvider (Some ''gpt-4o'')
        (Some \<lparr>providersOf = [(''qwen'', keyOnly ''sk-abc'')], defaultProvider = Some ''qwen'',
               defaultModel = None\<rparr>)
        \<lparr>config = \<lparr>providersOf = [], defaultProvider = None, defaultModel = None\<rparr>\<rparr>
        emptyRegistry
      = (Inl (Thrown (AuthenticationError
               (''API key not configured for provider \"openai\". ''
                @ ''Please set it with: xyzulu config set openai.apiKey <key>'')
               ''openai'' None)), emptyRegistry)"
    using resolveProvider_credentials [OF resolverBuilt_empty,
        where cfg = "\<lparr>providersOf = [(''qwen'', keyOnly ''sk-abc'')],
                  defaultProvider = Some ''qwen'', defaultModel = None\<rparr>"
        and mgr = "\<lparr>config = \<lparr>providersOf = [], defaultProvider = None,
                  defaultModel = None\<rparr>\<rparr>"] noOpenai
    by blast
  have found: "\<exists>p reg'. resolveProvider (Some ''gpt-4o'')
        (Some \<lparr>providersOf = [(''openai'', keyOnly ''sk-0123456789'')], defaultProvider = None,
               defaultModel = None\<rparr>)
        \<lparr>config = \<lparr>providersOf = [], defaultProvider = None, defaultModel = None\<rparr>\<rparr>
        emptyRegistry = (Inr p, reg')
      \<and> getName p = ''openai'' \<and> get ''openai'' reg' = Some p"
    using resolveProvider_credentials [OF resolverBuilt_empty,
        where cfg = "\<lparr>providersOf = [(''openai'', keyOnly ''sk-0123456789'')],
                  defaultProvider = None, defaultModel = None\<rparr>"
        and mgr = "\<lparr>config = \<lparr>providersOf = [], defaultProvider = None,
                  defaultModel = None\<rparr>\<rparr>"
        and oc = "keyOnly ''sk-0123456789''"] goodKey
    by simp
  have rejected: "resolveProvider None
        (Some \<lparr>providersOf = [(''openai'', keyOnly ''sk-0'')], defaultProvider = Some ''openai'',
               defaultModel = None\<rparr>)
        \<lparr>config = \<lparr>providersOf = [], defaultProvider = None, defaultModel = None\<rparr>\<rparr>
        emptyRegistry
      = (Inl (Thrown (AuthenticationError ''Invalid API key format for provider \"openai\"''
               ''openai'' None)), emptyRegistry)"
    using resolveProvider_credentials [OF resolverBuilt_empty,
        where hint = None and n = "''openai''" and c = "keyOnly ''sk-0''"
        and cfg = "\<lparr>providersOf = [(''openai'', keyOnly ''sk-0'')],
                  defaultProvider = Some ''openai'', defaultModel = None\<rparr>"
        and mgr = "\<lparr>config = \<lparr>providersOf = [], defaultProvider = None,
                  defaultModel = None\<rparr>\<rparr>"] chosen badKey
    by (simp add: keyOnly_def)
  show ?thesis
    by (intro conjI)
      (fact resolverBuilt_empty noOpenai goodKey badKey chosen missing found rejected)+
qed

section \<open>Normalization of HTTP errors\<close>

lemma handleError_Thrown: "handleError (Thrown e) = e"
  by (simp add: handleError_def)

lemma makeRequest_respondWith: "makeRequest (respondWith r) request streaming = Inr r"
  by (simp add: makeRequest_def respondWith_def)

lemma handleHttpError_status:
  assumes "readErrorData r = None"
  shows "handleHttpError r =
     Inr (if status r = 401 \<or> status r = 403
          then AuthenticationError ''Invalid or missing API key'' ''qwen'' (Some (status r))
          else if status r = 429
          then RateLimitError ''Rate limit exceeded'' ''qwen'' (Some (status r))
          else if status r = 400
          then ValidationError ''Invalid request parameters'' ''qwen'' (Some (status r))
          else if status r = 500 \<or> status r = 502 \<or> status r = 503 \<or> status r = 504
          then NetworkError (''Server error: '' @ showNat (status r)) ''qwen'' (Some (status r))
          else ProviderError (''HTTP error: '' @ showNat (status r)) ''qwen''
                 (''HTTP_'' @ showNat (status r)) (Some (status r)))"
  using assms by (simp add: handleHttpError_def Let_def)

lemma readErrorData_readable:
  "json r = Inr errorData \<or> textFailure r = None \<Longrightarrow> readErrorData r = None"
  by (auto simp: readErrorData_def split: sum.splits)

text \<open>
  An error response whose body neither \<open>json()\<close> nor \<open>text()\<close> can read, as a response of
  \<open>fetch\<close> with a body that is not JSON: the error of \<open>text()\<close> is thrown before the status
  is looked at, and the operation throws what \<open>handleError\<close> makes of it, whatever the
  status: a provider error with the code \<open>UNKNOWN_ERROR\<close> for the message of a body that
  has been read already.
\<close>

lemma handleHttpError_body_unreadable:
  assumes "json r = Inl jsonError" and "textFailure r = Some textError" and "\<not> ok r"
  shows "handleHttpError r = Inl (Error textError)"
    and "sendMessage (respondWith r) prompt options = Inl (handleError (Error textError))"
  using assms
  by (simp_all add: handleHttpError_def readErrorData_def sendMessage_def makeRequest_respondWith)

lemma sendMessage_nonJsonErrorResponse:
  "sendMessage (respondWith (nonJsonErrorResponse 401)) ''hello'' noOptions
     = Inl (ProviderError ''Body is unusable: Body has already been read'' ''qwen''
              ''UNKNOWN_ERROR'' None)"
proof -
  have "handleError (Error ''Body is unusable: Body has already been read'')
      = ProviderError ''Body is unusable: Body has already been read'' ''qwen''
          ''UNKNOWN_ERROR'' None"
    by (simp add: handleError_def startsWith_def)
  then show ?thesis
    using handleHttpError_body_unreadable(2) [where r = "nonJsonErrorResponse 401"
        and prompt = "''hello''" and options = noOptions]
    by (simp add: nonJsonErrorResponse_def)
qed

text \<open>
  C3, as stated, fails for the status 501: it is a 5xx status, and for a response with that
  status and a JSON body the error is the generic provider error with the code \<open>HTTP_501\<close>,
  not a network error.
\<close>

theorem handleHttpError_501_counterexample:
  "handleHttpError
     (createMockResponse False 501 (Inr (errorDocument ''NotImplemented'' ''not implemented''))
        None)
     = Inr (ProviderError ''HTTP error: 501'' ''qwen'' ''HTTP_501'' (Some 501))
   \<and> errClass (ProviderError ''HTTP error: 501'' ''qwen'' ''HTTP_501'' (Some 501))
       \<noteq> NetworkErrorC
   \<and> sendMessage
        (respondWith
           (createMockResponse False 501
              (Inr (errorDocument ''NotImplemented'' ''not implemented'')) None))
        ''hello'' noOptions
      = Inl (ProviderError ''HTTP error: 501'' ''qwen'' ''HTTP_501'' (Some 501))"
  by (simp add: sendMessage_def makeRequest_respondWith createMockResponse_def handleError_Thrown
      handleHttpError_def readErrorData_def ProviderError_def NetworkError_def showNat.simps)

text \<open>
  C3, amended. For a response whose body can be read (\<open>json()\<close> resolves, or \<open>text()\<close>
  resolves after it), the error made from the status is an authentication error for 401 and
  403, a rate-limit error for 429, a validation error for 400, a network error for 500, 502,
  503 and 504, and for every other status, the other 5xx ones included, the generic
  provider error whose code is \<open>HTTP_\<close> followed by the decimal status. It carries the
  status and the provider name, and \<open>sendMessage\<close>, \<open>streamResponse\<close> and \<open>generateCode\<close>
  throw it unchanged when the endpoint's response is not \<open>ok\<close>.
\<close>

theorem handleHttpError_classes:
  "json r = Inr errorData \<or> textFailure r = None \<longrightarrow>
   (\<exists>e. handleHttpError r = Inr e
      \<and> (status r = 401 \<or> status r = 403 \<longrightarrow> errClass e = AuthenticationErrorC)
      \<and> (status r = 429 \<longrightarrow> errClass e = RateLimitErrorC)
      \<and> (status r = 400 \<longrightarrow> errClass e = ValidationErrorC)
      \<and> (status r = 500 \<or> status r = 502 \<or> status r = 503 \<or> status r = 504
           \<longrightarrow> errClass e = NetworkErrorC)
      \<and> (status r \<notin> {400, 401, 403, 429, 500, 502, 503, 504}
           \<longrightarrow> errClass e = ProviderErrorC \<and> code e = ''HTTP_'' @ showNat (status r))
      \<and> statusCode e = Some (status r)
      \<and> provider e = ''qwen''
      \<and> (fetch (formatRequest prompt options) False = Responded r \<and> \<not> ok r
           \<longrightarrow> sendMessage fetch prompt options = Inl e)
      \<and> (fetch (formatRequest prompt (options\<lparr>stream := Some True\<rparr>)) True = Responded r
           \<and> \<not> ok r
           \<longrightarrow> streamResponse JSON_parse fetch prompt options = ([], Raised e))
      \<and> (\<not> ok r \<longrightarrow> generateCode (respondWith r) prompt ctx = Inl e))"
proof
  assume readable: "json r = Inr errorData \<or> textFailure r = None"
  define e where "e =
     (if status r = 401 \<or> status r = 403
      then AuthenticationError ''Invalid or missing API key'' ''qwen'' (Some (status r))
      else if status r = 429
      then RateLimitError ''Rate limit exceeded'' ''qwen'' (Some (status r))
      else if status r = 400
      then ValidationError ''Invalid request parameters'' ''qwen'' (Some (status r))
      else if status r = 500 \<or> status r = 502 \<or> status r = 503 \<or> status r = 504
      then NetworkError (''Server error: '' @ showNat (status r)) ''qwen'' (Some (status r))
      else ProviderError (''HTTP error: '' @ showNat (status r)) ''qwen''
             (''HTTP_'' @ showNat (status r)) (Some (status r)))"
  have made: "handleHttpError r = Inr e"
    unfolding e_def
    by (rule handleHttpError_status) (rule readErrorData_readable [OF readable])
  have classes: "(status r = 401 \<or> status r = 403 \<longrightarrow> errClass e = AuthenticationErrorC)
      \<and> (status r = 429 \<longrightarrow> errClass e = RateLimitErrorC)
      \<and> (status r = 400 \<longrightarrow> errClass e = ValidationErrorC)
      \<and> (status r = 500 \<or> status r = 502 \<or> status r = 503 \<or> status r = 504
           \<longrightarrow> errClass e = NetworkErrorC)
      \<and> (status r \<notin> {400, 401, 403, 429, 500, 502, 503, 504}
           \<longrightarrow> errClass e = ProviderErrorC \<and> code e = ''HTTP_'' @ showNat (status r))
      \<and> statusCode e = Some (status r)
      \<and> provider e = ''qwen''"
    by (simp add: e_def AuthenticationError_def RateLimitError_def ValidationError_def
        NetworkError_def ProviderError_def)
  have send: "sendMessage f p opts = Inl e"
    if "f (formatRequest p opts) False = Responded r" "\<not> ok r" for f p opts
    using that by (simp add: sendMessage_def makeRequest_def handleError_Thrown made)
  have gen: "generateCode (respondWith r) prompt ctx = Inl e" if "\<not> ok r"
    by (simp add: generateCode_def Let_def send [OF _ that] respondWith_def handleError_Thrown)
  have str: "streamResponse JSON_parse fetch prompt options = ([], Raised e)"
    if "fetch (formatRequest prompt (options\<lparr>stream := Some True\<rparr>)) True = Responded r"
      "\<not> ok r"
    using that by (simp add: streamResponse_def makeRequest_def handleError_Thrown made)
  from made classes send [of fetch prompt options] gen str
  show "\<exists>e. handleHttpError r = Inr e
      \<and> (status r = 401 \<or> status r = 403 \<longrightarrow> errClass e = AuthenticationErrorC)
      \<and> (status r = 429 \<longrightarrow> errClass e = RateLimitErrorC)
      \<and> (status r = 400 \<longrightarrow> errClass e = ValidationErrorC)
      \<and> (status r = 500 \<or> status r = 502 \<or> status r = 503 \<or> status r = 504
           \<longrightarrow> errClass e = NetworkErrorC)
      \<and> (status r \<notin> {400, 401, 403, 429, 500, 502, 503, 504}
           \<longrightarrow> errClass e = ProviderErrorC \<and> code e = ''HTTP_'' @ showNat (status r))
      \<and> statusCode e = Some (status r)
      \<and> provider e = ''qwen''
      \<and> (fetch (formatRequest prompt options) False = Responded r \<and> \<not> ok r
           \<longrightarrow> sendMessage fetch prompt options = Inl e)
      \<and> (fetch (formatRequest prompt (options\<lparr>stream := Some True\<rparr>)) True = Responded r
           \<and> \<not> ok r
           \<longrightarrow> streamResponse JSON_parse fetch prompt options = ([], Raised e))
      \<and> (\<not> ok r \<longrightarrow> generateCode (respondWith r) prompt ctx = Inl e)"
    by blast
qed

theorem handleHttpError_classes_witness:
  "json (createMockResponse False 401 (Inr (errorDocument ''InvalidApiKey'' ''bad key'')) None)
     = Inr (errorDocument ''InvalidApiKey'' ''bad key'')
 \<and> \<not> ok (createMockResponse False 401 (Inr (errorDocument ''InvalidApiKey'' ''bad key'')) None)
 \<and> (\<exists>e. sendMessage
          (respondWith
             (createMockResponse False 401 (Inr (errorDocument ''InvalidApiKey'' ''bad key''))
                None))
          ''hello'' noOptions = Inl e
       \<and> errClass e = AuthenticationErrorC \<and> statusCode e = Some 401)
 \<and> textFailure (createMockResponse False 503 (Inl ''no JSON'') None) = None
 \<and> (\<exists>e. handleHttpError (createMockResponse False 503 (Inl ''no JSON'') None) = Inr e
       \<and> errClass e = NetworkErrorC)
 \<and> (404::nat) \<notin> {400, 401, 403, 429, 500, 502, 503, 504}
 \<and> (\<exists>e. handleHttpError
           (createMockResponse False 404 (Inr (errorDocument ''NotFound'' ''no such model''))
              None) = Inr e
       \<and> errClass e = ProviderErrorC \<and> code e = ''HTTP_404'')"
proof -
  let ?r401 = "createMockResponse False 401 (Inr (errorDocument ''InvalidApiKey'' ''bad key''))
      None"
  let ?r503 = "createMockResponse False 503 (Inl ''no JSON'') None"
  let ?r404 = "createMockResponse False 404 (Inr (errorDocument ''NotFound'' ''no such model''))
      None"
  have json401: "json ?r401 = Inr (errorDocument ''InvalidApiKey'' ''bad key'')"
    and notOk: "\<not> ok ?r401" and st401: "status ?r401 = 401"
    by (simp_all add: createMockResponse_def)
  have c401: "\<exists>e. sendMessage (respondWith ?r401) ''hello'' noOptions = Inl e
       \<and> errClass e = AuthenticationErrorC \<and> statusCode e = Some 401"
    using handleHttpError_classes [where r = "?r401"
        and errorData = "errorDocument ''InvalidApiKey'' ''bad key''"
        and fetch = "respondWith ?r401" and prompt = "''hello''" and options = noOptions
        and JSON_parse = "\<lambda>chunk. None" and ctx = "fileContext None None"]
      json401 notOk st401
    by (auto simp: respondWith_def)
  have text503: "textFailure ?r503 = None" and st503: "status ?r503 = 503"
    by (simp_all add: createMockResponse_def)
  have c503: "\<exists>e. handleHttpError ?r503 = Inr e \<and> errClass e = NetworkErrorC"
    using handleHttpError_classes [where r = "?r503" and fetch = "respondWith ?r503"
        and prompt = "''hello''" and options = noOptions and JSON_parse = "\<lambda>chunk. None"
        and ctx = "fileContext None None"] text503 st503
    by auto
  have other: "(404::nat) \<notin> {400, 401, 403, 429, 500, 502, 503, 504}"
    by simp
  have digits: "showNat 404 = ''404''"
    by (simp add: showNat.simps)
  have json404: "json ?r404 = Inr (errorDocument ''NotFound'' ''no such model'')"
    and st404: "status ?r404 = 404"
    by (simp_all add: createMockResponse_def)
  have c404: "\<exists>e. handleHttpError ?r404 = Inr e
       \<and> errClass e = ProviderErrorC \<and> code e = ''HTTP_404''"
    using handleHttpError_classes [where r = "?r404"
        and errorData = "errorDocument ''NotFound'' ''no such model''"
        and fetch = "respondWith ?r404" and prompt = "''hello''" and options = noOptions
        and JSON_parse = "\<lambda>chunk. None" and ctx = "fileContext None None"]
      json404 st404 digits
    by auto
  show ?thesis
    by (intro conjI) (fact json401 notOk c401 text503 c503 other c404)+
qed

section \<open>The configuration manager: keys\<close>

text \<open>
  A name that every object inherits: \<open>setProviderKey\<close> on \<open>__proto__\<close> in a program that
  has just started writes the key on \<open>Object.prototype\<close> and saves a configuration without
  it; from then on \<open>getProviderKey\<close> finds the key under \<open>toString\<close>, where it found none
  before.
\<close>

lemma setProviderKey_inherited_name:
  "setProviderKey ''__proto__'' ''K'' \<lparr>config = emptyConfig\<rparr> freshRealm
      \<lparr>configFile = Missing, writeError = None\<rparr>
     = (None, \<lparr>config = emptyConfig\<rparr>, \<lparr>prototypeApiKey = Some ''K'', inheritedApiKey = []\<rparr>,
        \<lparr>configFile = Document (JObj [(''providers'', JObj [])]), writeError = None\<rparr>)"
  "getProviderKey ''toString'' \<lparr>config = emptyConfig\<rparr> freshRealm = None"
  "getProviderKey ''toString'' \<lparr>config = emptyConfig\<rparr>
      \<lparr>prototypeApiKey = Some ''K'', inheritedApiKey = []\<rparr> = Some ''K''"
  by (simp_all add: setProviderKey_def getProviderKey_def providersAt_def emptyConfig_def
      freshRealm_def inheritedObjects_def saveConfig_def configJson_def optionalField_def)









section \<open>The configuration manager: loading and migration\<close>

text \<open>
  Where \<open>Object.prototype.apiKey\<close> has been set, by \<open>setProviderKey\<close> on \<open>__proto__\<close>
  earlier in the program, every parsed object has the property: a document without a field
  of its own is migrated with that key.
\<close>

lemma loadConfig_inherited_apiKey:
  "newConfigManager \<lparr>configFile = Document (JObj []), writeError = None\<rparr>
      \<lparr>prototypeApiKey = Some ''K'', inheritedApiKey = []\<rparr>
     = (Some \<lparr>config = \<lparr>providersOf = [(''qwen'', keyOnly ''K'')],
                            defaultProvider = Some ''qwen'', defaultModel = None\<rparr>\<rparr>,
        \<lparr>configFile =
           Document (JObj [(''providers'', JObj [(''qwen'', JObj [(''apiKey'', JStr ''K'')])]),
                           (''defaultProvider'', JStr ''qwen'')]),
         writeError = None\<rparr>)"
  "newConfigManager \<lparr>configFile = Document (JObj []), writeError = None\<rparr> freshRealm
     = (Some \<lparr>config = emptyConfig\<rparr>,
        \<lparr>configFile = Document (JObj []), writeError = None\<rparr>)"
  by (simp_all add: newConfigManager_def loadConfig_def apiKeyProperty_def Map_has_def
      migrateOldConfig_def saveConfig_def configJson_def providerConfigJson_def keyOnly_def
      optionalField_def freshRealm_def)

text \<open>
  C8, as stated, fails for a document whose top-level \<open>apiKey\<close> is the empty string: it
  has the field and no \<open>providers\<close>, and it loads as the empty configuration, with no key
  for \<open>qwen\<close>, no default provider and the file left as it was. It also fails where the
  file cannot be written: the document with the key \<open>sk-old\<close> then loads as the empty
  configuration too.
\<close>

theorem loadConfig_empty_apiKey_counterexample:
  "newConfigManager
     \<lparr>configFile = Document (JObj [(''apiKey'', JStr ''''),
                                    (''defaultModel'', JStr ''qwen-turbo'')]),
      writeError = None\<rparr> freshRealm
     = (Some \<lparr>config = emptyConfig\<rparr>,
        \<lparr>configFile = Document (JObj [(''apiKey'', JStr ''''),
                                       (''defaultModel'', JStr ''qwen-turbo'')]),
         writeError = None\<rparr>)
 \<and> getProviderKey ''qwen'' \<lparr>config = emptyConfig\<rparr> freshRealm = None
 \<and> getDefaultProvider \<lparr>config = emptyConfig\<rparr> = None
 \<and> newConfigManager
     \<lparr>configFile = Document (JObj [(''apiKey'', JStr ''sk-old''),
                                    (''defaultModel'', JStr ''qwen-turbo'')]),
      writeError = Some ''EACCES: permission denied''\<rparr> freshRealm
     = (Some \<lparr>config = emptyConfig\<rparr>,
        \<lparr>configFile = Document (JObj [(''apiKey'', JStr ''sk-old''),
                                       (''defaultModel'', JStr ''qwen-turbo'')]),
         writeError = Some ''EACCES: permission denied''\<rparr>)"
  by (simp add: newConfigManager_def loadConfig_def Map_has_def migrateOldConfig_def
      apiKeyProperty_def saveConfig_def getProviderKey_def providersAt_def inheritedObjects_def
      getDefaultProvider_def emptyConfig_def)

text \<open>
  C8, amended. A document with a top-level \<open>apiKey\<close> that is a non-empty string \<open>K\<close> and
  without \<open>providers\<close> (its \<open>defaultModel\<close>, if any, a string) loads, when the file can be
  written, as a manager with \<open>getProviderKey qwen = K\<close> and \<open>getDefaultProvider = qwen\<close>; the
  file then holds the configuration in the new shape, with \<open>providers\<close> and
  \<open>defaultProvider\<close> and no top-level \<open>apiKey\<close>, and loading it again gives the same
  manager. Such a document whose \<open>apiKey\<close> is the empty string, or another falsy value,
  loads as the empty configuration, and the file is not rewritten. A file that cannot be
  read, or whose text is not JSON, loads as the empty configuration, with no error and no
  change to the file.
\<close>

theorem loadConfig_migrates_legacy:
  "(configFile fs = Document (JObj props)
      \<and> Map_get props ''apiKey'' = Some (JStr K) \<and> K \<noteq> []
      \<and> Map_get props ''providers'' = None
      \<and> legacyString (Map_get props ''defaultModel'') = Some dm
      \<and> writeError fs = None
    \<longrightarrow> (\<exists>m fs'. newConfigManager fs rl = (Some m, fs')
          \<and> getProviderKey ''qwen'' m rl = Some K
          \<and> getDefaultProvider m = Some ''qwen''
          \<and> configFile fs' =
               Document (JObj ([(''providers'', JObj [(''qwen'', JObj [(''apiKey'', JStr K)])]),
                                (''defaultProvider'', JStr ''qwen'')]
                               @ optionalField ''defaultModel'' JStr dm))
          \<and> newConfigManager fs' rl = (Some m, fs')))
 \<and> (configFile fs = Document (JObj props)
      \<and> Map_get props ''apiKey'' = Some old
      \<and> legacyString (Some old) = Some None
      \<and> Map_get props ''providers'' = None
    \<longrightarrow> newConfigManager fs rl = (Some \<lparr>config = emptyConfig\<rparr>, fs)
        \<and> getProviderKey ''qwen'' \<lparr>config = emptyConfig\<rparr> rl = None
        \<and> getDefaultProvider \<lparr>config = emptyConfig\<rparr> = None)
 \<and> (configFile fs = Corrupt \<or> configFile fs = Unreadable
    \<longrightarrow> newConfigManager fs rl = (Some \<lparr>config = emptyConfig\<rparr>, fs))"
proof -
  have legacy: "\<exists>m fs'. newConfigManager fs rl = (Some m, fs')
          \<and> getProviderKey ''qwen'' m rl = Some K
          \<and> getDefaultProvider m = Some ''qwen''
          \<and> configFile fs' =
               Document (JObj ([(''providers'', JObj [(''qwen'', JObj [(''apiKey'', JStr K)])]),
                                (''defaultProvider'', JStr ''qwen'')]
                               @ optionalField ''defaultModel'' JStr dm))
          \<and> newConfigManager fs' rl = (Some m, fs')"
    if doc: "configFile fs = Document (JObj props)"
      and key: "Map_get props ''apiKey'' = Some (JStr K)" "K \<noteq> []"
      and old: "Map_get props ''providers'' = None"
      and dm: "legacyString (Map_get props ''defaultModel'') = Some dm"
      and writable: "writeError fs = None"
  proof -
    let ?c = "\<lparr>providersOf = [(''qwen'', keyOnly K)], defaultProvider = Some ''qwen'',
               defaultModel = dm\<rparr>"
    let ?fs' = "fs\<lparr>configFile := Document (configJson ?c)\<rparr>"
    have migrated: "migrateOldConfig props rl fs = Inr (Some ?c, ?fs')"
      using key dm writable
      by (simp add: migrateOldConfig_def apiKeyProperty_def saveConfig_def)
    have loaded: "newConfigManager fs rl = (Some \<lparr>config = ?c\<rparr>, ?fs')"
      using doc key old migrated
      by (simp add: newConfigManager_def loadConfig_def apiKeyProperty_def Map_has_def)
    have written: "configJson ?c =
        JObj ([(''providers'', JObj [(''qwen'', JObj [(''apiKey'', JStr K)])]),
               (''defaultProvider'', JStr ''qwen'')] @ optionalField ''defaultModel'' JStr dm)"
      by (simp add: configJson_def providerConfigJson_def keyOnly_def optionalField_def)
    have again: "newConfigManager ?fs' rl = (Some \<lparr>config = ?c\<rparr>, ?fs')"
      by (cases dm)
        (simp_all add: newConfigManager_def loadConfig_def configJson_def providerConfigJson_def
          optionalField_def Map_has_def asMultiProviderConfig_def asProviderConfig_def
          keyOnly_def)
    have "getProviderKey ''qwen'' \<lparr>config = ?c\<rparr> rl = Some K"
      by (simp add: getProviderKey_def providersAt_def keyOnly_def)
    moreover have "getDefaultProvider \<lparr>config = ?c\<rparr> = Some ''qwen''"
      by (simp add: getDefaultProvider_def)
    moreover have "configFile ?fs' =
        Document (JObj ([(''providers'', JObj [(''qwen'', JObj [(''apiKey'', JStr K)])]),
                         (''defaultProvider'', JStr ''qwen'')]
                        @ optionalField ''defaultModel'' JStr dm))"
      by (simp add: written)
    ultimately show ?thesis
      using loaded again by blast
  qed
  have falsy: "newConfigManager fs rl = (Some \<lparr>config = emptyConfig\<rparr>, fs)"
    if "configFile fs = Document (JObj props)" "Map_get props ''apiKey'' = Some old"
      "legacyString (Some old) = Some None" "Map_get props ''providers'' = None"
    using that
    by (simp add: newConfigManager_def loadConfig_def Map_has_def migrateOldConfig_def
        apiKeyProperty_def)
  have unset: "getProviderKey ''qwen'' \<lparr>config = emptyConfig\<rparr> rl = None"
    "getDefaultProvider \<lparr>config = emptyConfig\<rparr> = None"
    by (simp_all add: getProviderKey_def providersAt_def inheritedObjects_def
        getDefaultProvider_def emptyConfig_def)
  have broken: "newConfigManager fs rl = (Some \<lparr>config = emptyConfig\<rparr>, fs)"
    if "configFile fs = Corrupt \<or> configFile fs = Unreadable"
    using that by (auto simp: newConfigManager_def loadConfig_def)
  from legacy falsy unset broken show ?thesis
    by blast
qed

theorem loadConfig_migrates_legacy_witness:
  "(\<exists>m fs'. newConfigManager
       \<lparr>configFile = Document (JObj [(''apiKey'', JStr ''sk-old''),
                                      (''defaultModel'', JStr ''qwen-turbo'')]),
        writeError = None\<rparr> freshRealm = (Some m, fs')
     \<and> getProviderKey ''qwen'' m freshRealm = Some ''sk-old''
     \<and> getDefaultProvider m = Some ''qwen''
     \<and> configFile fs' =
          Document (JObj [(''providers'', JObj [(''qwen'', JObj [(''apiKey'', JStr ''sk-old'')])]),
                          (''defaultProvider'', JStr ''qwen''),
                          (''defaultModel'', JStr ''qwen-turbo'')])
     \<and> newConfigManager fs' freshRealm = (Some m, fs'))
 \<and> newConfigManager
     \<lparr>configFile = Document (JObj [(''apiKey'', JNull)]), writeError = None\<rparr> freshRealm
     = (Some \<lparr>config = emptyConfig\<rparr>,
        \<lparr>configFile = Document (JObj [(''apiKey'', JNull)]), writeError = None\<rparr>)
 \<and> newConfigManager \<lparr>configFile = Corrupt, writeError = None\<rparr> freshRealm
     = (Some \<lparr>config = emptyConfig\<rparr>, \<lparr>configFile = Corrupt, writeError = None\<rparr>)"
proof -
  have migrated: "\<exists>m fs'. newConfigManager
       \<lparr>configFile = Document (JObj [(''apiKey'', JStr ''sk-old''),
                                      (''defaultModel'', JStr ''qwen-turbo'')]),
        writeError = None\<rparr> freshRealm = (Some m, fs')
     \<and> getProviderKey ''qwen'' m freshRealm = Some ''sk-old''
     \<and> getDefaultProvider m = Some ''qwen''
     \<and> configFile fs' =
          Document (JObj [(''providers'', JObj [(''qwen'', JObj [(''apiKey'', JStr ''sk-old'')])]),
                          (''defaultProvider'', JStr ''qwen''),
                          (''defaultModel'', JStr ''qwen-turbo'')])
     \<and> newConfigManager fs' freshRealm = (Some m, fs')"
    using loadConfig_migrates_legacy [where K = "''sk-old''" and dm = "Some ''qwen-turbo''"
        and rl = freshRealm
        and props = "[(''apiKey'', JStr ''sk-old''), (''defaultModel'', JStr ''qwen-turbo'')]"
        and fs = "\<lparr>configFile = Document (JObj [(''apiKey'', JStr ''sk-old''),
                      (''defaultModel'', JStr ''qwen-turbo'')]), writeError = None\<rparr>"]
    by (simp add: optionalField_def)
  have falsy: "newConfigManager
       \<lparr>configFile = Document (JObj [(''apiKey'', JNull)]), writeError = None\<rparr> freshRealm
     = (Some \<lparr>config = emptyConfig\<rparr>,
        \<lparr>configFile = Document (JObj [(''apiKey'', JNull)]), writeError = None\<rparr>)"
    using loadConfig_migrates_legacy [where old = JNull and props = "[(''apiKey'', JNull)]"
        and rl = freshRealm
        and fs = "\<lparr>configFile = Document (JObj [(''apiKey'', JNull)]), writeError = None\<rparr>"]
    by simp
  have corrupt: "newConfigManager \<lparr>configFile = Corrupt, writeError = None\<rparr> freshRealm
     = (Some \<lparr>config = emptyConfig\<rparr>, \<lparr>configFile = Corrupt, writeError = None\<rparr>)"
    using loadConfig_migrates_legacy [where fs = "\<lparr>configFile = Corrupt, writeError = None\<rparr>"
        and rl = freshRealm]
    by simp
  show ?thesis
    by (intro conjI) (fact migrated falsy corrupt)+
qed

section \<open>Code generation: the proposed file change\<close>

lemma parseResponse_oneChoice:
  "parseResponse (oneChoice txt) mdl =
     Inr \<lparr>content = txt, responseProvider = ''qwen'', responseModel = mdl, tokensUsed = None,
          finishReason = None, metadata = Some [(''request_id'', None), (''code'', None)]\<rparr>"
  by (simp add: parseResponse_def oneChoice_def)

lemma sendMessage_respondWith_ok:
  "ok r \<Longrightarrow> json r = Inr doc \<Longrightarrow> parseResponse doc ''qwen-turbo'' = Inr resp \<Longrightarrow>
   model options = Some ''qwen-turbo'' \<Longrightarrow>
   sendMessage (respondWith r) prompt options = Inr resp"
  by (simp add: sendMessage_def makeRequest_respondWith)

text \<open>
  C5, as stated, fails for a context that supplies a file path and an empty \<open>existingCode\<close>:
  the one change is tagged \<open>create\<close>, not \<open>modify\<close>.
\<close>

theorem generateCode_empty_existingCode_counterexample:
  "generateCode (respondWith (createMockResponse True 200 (Inr (oneChoice ''x = 1'')) None))
     ''write it'' (fileContext (Some ''a.ts'') (Some ''''))
   = Inr \<lparr>generatedCode = ''x = 1'', explanation = None,
          changes = Some [\<lparr>path = ''a.ts'', operation = Create, newContent = ''x = 1'',
                           diff = None\<rparr>],
          response = \<lparr>content = ''x = 1'', responseProvider = ''qwen'',
                      responseModel = ''qwen-turbo'', tokensUsed = None, finishReason = None,
                      metadata = Some [(''request_id'', None), (''code'', None)]\<rparr>\<rparr>"
  by (simp add: generateCode_def Let_def fileContext_def sendMessage_def makeRequest_respondWith
      createMockResponse_def parseResponse_oneChoice extractCodeFromResponse_def trim_def
      isWhiteSpace_def matchFenceAt_def startsWith_def fence_def)

text \<open>
  C5, amended. Whenever \<open>generateCode\<close> returns, its \<open>changes\<close> are one \<open>FileChange\<close>, with
  the path \<open>context.filePath\<close>, the generated code as its content, and the operation
  \<open>modify\<close> when \<open>existingCode\<close> is supplied and not empty and \<open>create\<close> otherwise, if a
  non-empty file path is given; with no file path, or the empty one, \<open>changes\<close> is
  absent. It does return when the endpoint answers with an \<open>ok\<close> response whose document
  has a first choice with a message.
\<close>

theorem generateCode_changes:
  "(generateCode fetch prompt ctx = Inr res
    \<longrightarrow> changes res =
         (if truthy (filePath ctx)
          then Some [\<lparr>path = the (filePath ctx),
                      operation = (if truthy (existingCode ctx) then Modify else Create),
                      newContent = generatedCode res, diff = None\<rparr>]
          else None))
 \<and> (ok r \<and> json r = Inr doc \<and> parseResponse doc ''qwen-turbo'' = Inr resp
    \<longrightarrow> (\<exists>res'. generateCode (respondWith r) prompt ctx = Inr res'
          \<and> response res' = resp
          \<and> generatedCode res' = extractCodeFromResponse (content resp) (language ctx)))"
proof -
  have shape: "changes res =
         (if truthy (filePath ctx)
          then Some [\<lparr>path = the (filePath ctx),
                      operation = (if truthy (existingCode ctx) then Modify else Create),
                      newContent = generatedCode res, diff = None\<rparr>]
          else None)"
    if "generateCode fetch prompt ctx = Inr res"
    using that by (auto simp: generateCode_def Let_def split: sum.splits)
  have returns: "\<exists>res'. generateCode (respondWith r) prompt ctx = Inr res'
          \<and> response res' = resp
          \<and> generatedCode res' = extractCodeFromResponse (content resp) (language ctx)"
    if "ok r" "json r = Inr doc" "parseResponse doc ''qwen-turbo'' = Inr resp"
    using that by (simp add: generateCode_def Let_def sendMessage_respondWith_ok)
  from shape returns show ?thesis
    by blast
qed

theorem generateCode_changes_witness:
  "(\<exists>res. generateCode (respondWith (createMockResponse True 200 (Inr (oneChoice ''y'')) None))
       ''edit'' (fileContext (Some ''a.ts'') (Some ''x'')) = Inr res
     \<and> changes res = Some [\<lparr>path = ''a.ts'', operation = Modify, newContent = generatedCode res,
                             diff = None\<rparr>])
 \<and> (\<exists>res. generateCode (respondWith (createMockResponse True 200 (Inr (oneChoice ''y'')) None))
       ''edit'' (fileContext None (Some ''x'')) = Inr res
     \<and> changes res = None)"
proof -
  let ?r = "createMockResponse True 200 (Inr (oneChoice ''y'')) None"
  let ?resp = "\<lparr>content = ''y'', responseProvider = ''qwen'', responseModel = ''qwen-turbo'',
      tokensUsed = None, finishReason = None,
      metadata = Some [(''request_id'', None), (''code'', None)]\<rparr>"
  have answer: "ok ?r \<and> json ?r = Inr (oneChoice ''y'')
      \<and> parseResponse (oneChoice ''y'') ''qwen-turbo'' = Inr ?resp"
    by (simp add: createMockResponse_def parseResponse_oneChoice)
  have withFile: "\<exists>res. generateCode (respondWith ?r) ''edit''
        (fileContext (Some ''a.ts'') (Some ''x'')) = Inr res
     \<and> changes res = Some [\<lparr>path = ''a.ts'', operation = Modify, newContent = generatedCode res,
                             diff = None\<rparr>]"
  proof -
    obtain res where returned: "generateCode (respondWith ?r) ''edit''
        (fileContext (Some ''a.ts'') (Some ''x'')) = Inr res"
      using generateCode_changes [where r = "?r" and prompt = "''edit''"
          and ctx = "fileContext (Some ''a.ts'') (Some ''x'')" and doc = "oneChoice ''y''"
          and resp = "?resp"] answer
      by blast
    have "changes res = Some [\<lparr>path = ''a.ts'', operation = Modify,
        newContent = generatedCode res, diff = None\<rparr>]"
      using generateCode_changes [where fetch = "respondWith ?r" and prompt = "''edit''"
          and ctx = "fileContext (Some ''a.ts'') (Some ''x'')" and res = res] returned
      by (simp add: fileContext_def)
    with returned show ?thesis
      by blast
  qed
  have noFile: "\<exists>res. generateCode (respondWith ?r) ''edit''
        (fileContext None (Some ''x'')) = Inr res \<and> changes res = None"
  proof -
    obtain res where returned: "generateCode (respondWith ?r) ''edit''
        (fileContext None (Some ''x'')) = Inr res"
      using generateCode_changes [where r = "?r" and prompt = "''edit''"
          and ctx = "fileContext None (Some ''x'')" and doc = "oneChoice ''y''"
          and resp = "?resp"] answer
      by blast
    have "changes res = None"
      using generateCode_changes [where fetch = "respondWith ?r" and prompt = "''edit''"
          and ctx = "fileContext None (Some ''x'')" and res = res] returned
      by (simp add: fileContext_def)
    with returned show ?thesis
      by blast
  qed
  show ?thesis
    by (intro conjI) (fact withFile noFile)+
qed

section \<open>Code generation: extraction of the code\<close>

lemma startsWith_fence: "startsWith s fence \<longleftrightarrow> (\<exists>t. s = fence @ t)"
  unfolding startsWith_def
  by (metis append_eq_conv_conj append_take_drop_id)

lemma length_fence: "length fence = 3"
  by (simp add: fence_def)

lemma startsWith_fence_append: "startsWith (fence @ t) fence"
  by (simp add: startsWith_def)

lemma drop_fence: "drop 3 (fence @ t) = t"
  by (simp add: fence_def)

lemma startsWith_fence_drop: "startsWith s fence \<Longrightarrow> s = fence @ drop 3 s"
  unfolding startsWith_def length_fence
  by (metis append_take_drop_id)

lemma untilFence_Some:
  "untilFence s = Some b \<Longrightarrow> \<exists>post. s = b @ fence @ post"
proof (induction s arbitrary: b)
  case Nil
  then show ?case by simp
next
  case (Cons c s)
  show ?case
  proof (cases "startsWith (c # s) fence")
    case True
    with Cons.prems have "b = []" by simp
    with True show ?thesis by (simp add: startsWith_fence)
  next
    case False
    with Cons.prems obtain b' where b': "untilFence s = Some b'" "b = c # b'"
      by auto
    from Cons.IH [OF b'(1)] b'(2) show ?thesis by auto
  qed
qed

lemma untilFence_shortest:
  "untilFence (b2 @ fence @ post2) = Some b \<Longrightarrow> length b \<le> length b2"
proof (induction b2 arbitrary: b)
  case Nil
  then have "startsWith (fence @ post2) fence" by (simp add: startsWith_fence)
  with Nil show ?case by (cases "fence @ post2") (auto simp: fence_def)
next
  case (Cons c b2)
  then show ?case by (auto split: if_splits)
qed

lemma untilFence_complete: "untilFence (b @ fence @ post) \<noteq> None"
proof (induction b)
  case Nil
  have "startsWith (fence @ post) fence" by (simp add: startsWith_fence)
  then show ?case by (cases "fence @ post") (auto simp: fence_def)
next
  case (Cons c b)
  then show ?case by auto
qed

lemma lf_not_word: "\<not> isWordChar lf"
  by (simp add: isWordChar_def lf_def)

lemma matchFenceAt_Some:
  assumes "matchFenceAt s = Some b"
  shows "\<exists>tag post. s = fence @ tag @ [lf] @ b @ fence @ post \<and> list_all isWordChar tag"
proof -
  from assms have sw: "startsWith s fence"
    by (auto simp: matchFenceAt_def split: if_splits)
  then have s: "s = fence @ drop 3 s"
    by (rule startsWith_fence_drop)
  from assms sw obtain rest where rest: "dropWhile isWordChar (drop 3 s) = lf # rest"
      "untilFence rest = Some b"
    by (auto simp: matchFenceAt_def split: list.splits if_splits)
  from untilFence_Some [OF rest(2)] obtain post where post: "rest = b @ fence @ post"
    by blast
  have "drop 3 s = takeWhile isWordChar (drop 3 s) @ dropWhile isWordChar (drop 3 s)"
    by simp
  with rest(1) post have "drop 3 s = takeWhile isWordChar (drop 3 s) @ [lf] @ b @ fence @ post"
    by simp
  moreover have "list_all isWordChar (takeWhile isWordChar (drop 3 s))"
    by (simp add: list_all_iff) (metis set_takeWhileD)
  ultimately show ?thesis
    using s by metis
qed

lemma matchFenceAt_complete:
  assumes "list_all isWordChar tag"
  shows "matchFenceAt (fence @ tag @ [lf] @ inner @ fence @ post) \<noteq> None"
proof -
  have "dropWhile isWordChar (tag @ lf # inner @ fence @ post) = lf # inner @ fence @ post"
    using assms lf_not_word by (simp add: dropWhile_append2 list_all_iff)
  moreover have "drop 3 (fence @ tag @ [lf] @ inner @ fence @ post)
      = tag @ lf # inner @ fence @ post"
    by (simp add: fence_def)
  ultimately show ?thesis
    using untilFence_complete [of inner post]
    by (simp only: matchFenceAt_def startsWith_fence_append if_True) auto
qed

lemma matchFenceAt_Nil: "matchFenceAt [] = None"
  by (simp add: matchFenceAt_def startsWith_def fence_def)

lemma firstCodeBlock_Some:
  "firstCodeBlock src = Some b \<Longrightarrow>
     \<exists>pre s. src = pre @ s \<and> matchFenceAt s = Some b
        \<and> (\<forall>i < length pre. matchFenceAt (drop i src) = None)"
proof (induction src)
  case Nil
  then show ?case by simp
next
  case (Cons c src)
  show ?case
  proof (cases "matchFenceAt (c # src)")
    case (Some b')
    with Cons.prems have "b' = b" by simp
    with Some have "c # src = [] @ (c # src) \<and> matchFenceAt (c # src) = Some b
        \<and> (\<forall>i < length ([]::string). matchFenceAt (drop i (c # src)) = None)"
      by simp
    then show ?thesis by blast
  next
    case None
    with Cons.prems have "firstCodeBlock src = Some b" by simp
    from Cons.IH [OF this] obtain pre s where ps: "src = pre @ s" "matchFenceAt s = Some b"
        "\<forall>i < length pre. matchFenceAt (drop i src) = None"
      by blast
    have "\<forall>i < length (c # pre). matchFenceAt (drop i (c # src)) = None"
    proof (intro allI impI)
      fix i assume "i < length (c # pre)"
      then show "matchFenceAt (drop i (c # src)) = None"
        using None ps(3) by (cases i) auto
    qed
    with ps(1,2) have "c # src = (c # pre) @ s \<and> matchFenceAt s = Some b
        \<and> (\<forall>i < length (c # pre). matchFenceAt (drop i (c # src)) = None)"
      by simp
    then show ?thesis by blast
  qed
qed

lemma firstCodeBlock_complete:
  "matchFenceAt s \<noteq> None \<Longrightarrow> firstCodeBlock (pre @ s) \<noteq> None"
proof (induction pre)
  case Nil
  then show ?case by (cases s) (auto simp: matchFenceAt_Nil)
next
  case (Cons c pre)
  then show ?case by (auto split: option.splits)
qed

lemma matchFenceAt_header:
  assumes "list_all isWordChar tag"
  shows "matchFenceAt (fence @ tag @ [lf] @ rest) = untilFence rest"
proof -
  have "dropWhile isWordChar (tag @ lf # rest) = lf # rest"
    using assms lf_not_word by (simp add: dropWhile_append2 list_all_iff)
  moreover have "drop 3 (fence @ tag @ [lf] @ rest) = tag @ lf # rest"
    by (simp add: fence_def)
  ultimately show ?thesis
    by (simp only: matchFenceAt_def startsWith_fence_append if_True) auto
qed

text \<open>
  C6, as stated, fails for a content without any fenced block in which a line starts with a
  fence, when a language is given: the line loop then collects the lines after that line,
  and those are returned, not the whole content.
\<close>

theorem extractCodeFromResponse_line_scan_counterexample:
  "firstCodeBlock (fence @ ''x'' @ fence @ '' is inline'' @ [lf] @ ''more text'') = None
   \<and> extractCodeFromResponse (fence @ ''x'' @ fence @ '' is inline'' @ [lf] @ ''more text'')
        (Some ''ts'') = ''more text''
   \<and> trim (fence @ ''x'' @ fence @ '' is inline'' @ [lf] @ ''more text'') \<noteq> ''more text''"
  by (simp add: extractCodeFromResponse_def fence_def lf_def matchFenceAt_def startsWith_def
      isWordChar_def trim_def isWhiteSpace_def)

text \<open>
  C6, amended. A fenced block of the content is a fence, a tag of word characters (possibly
  none), a line feed, a text and a fence. When the content has one, the result is the
  trimmed text of the first: the one that starts leftmost, with the shortest text. When it
  has none, the result is the trimmed content if no language is given (or the empty one),
  or if the line loop collects no line; otherwise it is the collected lines, joined by line
  feeds and trimmed.
\<close>

theorem extractCodeFromResponse_cases:
  "(firstCodeBlock src = Some block \<longrightarrow>
      extractCodeFromResponse src lang = trim block
      \<and> (\<exists>pre tag post. src = pre @ fence @ tag @ [lf] @ block @ fence @ post
            \<and> list_all isWordChar tag
            \<and> (\<forall>pre2 tag2 inner2 post2.
                  src = pre2 @ fence @ tag2 @ [lf] @ inner2 @ fence @ post2
                  \<and> list_all isWordChar tag2
                  \<longrightarrow> length pre \<le> length pre2
                      \<and> (pre2 = pre \<longrightarrow> length block \<le> length inner2))))
 \<and> (firstCodeBlock src = None \<longrightarrow>
      \<not> (\<exists>pre tag inner post. src = pre @ fence @ tag @ [lf] @ inner @ fence @ post
            \<and> list_all isWordChar tag))
 \<and> (firstCodeBlock src = None \<and> truthy lang \<and> codeLines False (splitLines src) \<noteq> []
      \<longrightarrow> extractCodeFromResponse src lang
            = trim (join [lf] (codeLines False (splitLines src))))
 \<and> (firstCodeBlock src = None \<and> (\<not> truthy lang \<or> codeLines False (splitLines src) = [])
      \<longrightarrow> extractCodeFromResponse src lang = trim src)"
proof -
  have found: "extractCodeFromResponse src lang = trim block
      \<and> (\<exists>pre tag post. src = pre @ fence @ tag @ [lf] @ block @ fence @ post
            \<and> list_all isWordChar tag
            \<and> (\<forall>pre2 tag2 inner2 post2.
                  src = pre2 @ fence @ tag2 @ [lf] @ inner2 @ fence @ post2
                  \<and> list_all isWordChar tag2
                  \<longrightarrow> length pre \<le> length pre2
                      \<and> (pre2 = pre \<longrightarrow> length block \<le> length inner2)))"
    if first: "firstCodeBlock src = Some block"
  proof -
    from firstCodeBlock_Some [OF first] obtain pre s where
      split: "src = pre @ s" and here: "matchFenceAt s = Some block"
      and before: "\<forall>i < length pre. matchFenceAt (drop i src) = None"
      by blast
    from matchFenceAt_Some [OF here] obtain tag post where
      s: "s = fence @ tag @ [lf] @ block @ fence @ post" and tag: "list_all isWordChar tag"
      by blast
    have least: "length pre \<le> length pre2 \<and> (pre2 = pre \<longrightarrow> length block \<le> length inner2)"
      if other: "src = pre2 @ fence @ tag2 @ [lf] @ inner2 @ fence @ post2"
        and tag2: "list_all isWordChar tag2" for pre2 tag2 inner2 post2
    proof
      have "matchFenceAt (drop (length pre2) src) \<noteq> None"
        using matchFenceAt_complete [OF tag2, of inner2 post2] other by simp
      with before show "length pre \<le> length pre2"
        by (meson not_le_imp_less)
      show "pre2 = pre \<longrightarrow> length block \<le> length inner2"
      proof
        assume "pre2 = pre"
        with other split have "s = fence @ tag2 @ [lf] @ inner2 @ fence @ post2"
          by simp
        with here matchFenceAt_header [OF tag2, of "inner2 @ fence @ post2"]
        have "untilFence (inner2 @ fence @ post2) = Some block"
          by simp
        then show "length block \<le> length inner2"
          by (rule untilFence_shortest)
      qed
    qed
    have "extractCodeFromResponse src lang = trim block"
      using first by (simp add: extractCodeFromResponse_def)
    moreover have "src = pre @ fence @ tag @ [lf] @ block @ fence @ post"
      using split s by simp
    ultimately show ?thesis
      using tag least by blast
  qed
  have none: "\<not> (\<exists>pre tag inner post. src = pre @ fence @ tag @ [lf] @ inner @ fence @ post
            \<and> list_all isWordChar tag)"
    if "firstCodeBlock src = None"
  proof
    assume "\<exists>pre tag inner post. src = pre @ fence @ tag @ [lf] @ inner @ fence @ post
            \<and> list_all isWordChar tag"
    then obtain pre tag inner post where
      src: "src = pre @ (fence @ tag @ [lf] @ inner @ fence @ post)"
      and tag: "list_all isWordChar tag"
      by auto
    from tag have "matchFenceAt (fence @ tag @ [lf] @ inner @ fence @ post) \<noteq> None"
      by (rule matchFenceAt_complete)
    then have "firstCodeBlock (pre @ (fence @ tag @ [lf] @ inner @ fence @ post)) \<noteq> None"
      by (rule firstCodeBlock_complete)
    with src that show False
      by simp
  qed
  have scan: "extractCodeFromResponse src lang
            = trim (join [lf] (codeLines False (splitLines src)))"
    if "firstCodeBlock src = None" "truthy lang" "codeLines False (splitLines src) \<noteq> []"
    using that by (simp add: extractCodeFromResponse_def)
  have whole: "extractCodeFromResponse src lang = trim src"
    if "firstCodeBlock src = None" "\<not> truthy lang \<or> codeLines False (splitLines src) = []"
    using that by (auto simp: extractCodeFromResponse_def)
  from found none scan whole show ?thesis
    by blast
qed

theorem extractCodeFromResponse_cases_witness:
  "firstCodeBlock (''Here:'' @ [lf] @ fence @ ''ts'' @ [lf] @ ''let a = 1;'' @ [lf] @ fence
                   @ [lf] @ ''Bye'')
     = Some (''let a = 1;'' @ [lf])
 \<and> extractCodeFromResponse (''Here:'' @ [lf] @ fence @ ''ts'' @ [lf] @ ''let a = 1;'' @ [lf]
                             @ fence @ [lf] @ ''Bye'') None
     = ''let a = 1;''
 \<and> firstCodeBlock '' let a = 1; '' = None
 \<and> codeLines False (splitLines '' let a = 1; '') = []
 \<and> extractCodeFromResponse '' let a = 1; '' (Some ''ts'') = ''let a = 1;''
 \<and> firstCodeBlock (fence @ ''ts'' @ [lf] @ ''let a = 1;'') = None
 \<and> truthy (Some ''ts'')
 \<and> codeLines False (splitLines (fence @ ''ts'' @ [lf] @ ''let a = 1;'')) \<noteq> []
 \<and> extractCodeFromResponse (fence @ ''ts'' @ [lf] @ ''let a = 1;'') (Some ''ts'')
     = ''let a = 1;''"
proof -
  let ?fenced = "''Here:'' @ [lf] @ fence @ ''ts'' @ [lf] @ ''let a = 1;'' @ [lf] @ fence
      @ [lf] @ ''Bye''"
  let ?open = "fence @ ''ts'' @ [lf] @ ''let a = 1;''"
  have block: "firstCodeBlock ?fenced = Some (''let a = 1;'' @ [lf])"
    by (simp add: fence_def lf_def matchFenceAt_def startsWith_def isWordChar_def)
  have trimmed: "trim (''let a = 1;'' @ [lf]) = ''let a = 1;''"
    by (simp add: trim_def isWhiteSpace_def lf_def)
  have first: "extractCodeFromResponse ?fenced None = ''let a = 1;''"
    using extractCodeFromResponse_cases [where src = "?fenced" and lang = None
        and block = "''let a = 1;'' @ [lf]"] block trimmed
    by simp
  have plain: "firstCodeBlock '' let a = 1; '' = None"
    by (simp add: fence_def matchFenceAt_def startsWith_def)
  have noLines: "codeLines False (splitLines '' let a = 1; '') = []"
    by (simp add: fence_def lf_def startsWith_def trim_def isWhiteSpace_def)
  have trimmedPlain: "trim '' let a = 1; '' = ''let a = 1;''"
    by (simp add: trim_def isWhiteSpace_def)
  have whole: "extractCodeFromResponse '' let a = 1; '' (Some ''ts'') = ''let a = 1;''"
    using extractCodeFromResponse_cases [where src = "'' let a = 1; ''" and lang = "Some ''ts''"]
      plain noLines trimmedPlain
    by simp
  have unclosed: "firstCodeBlock ?open = None"
    by (simp add: fence_def lf_def matchFenceAt_def startsWith_def isWordChar_def)
  have given: "truthy (Some ''ts'')"
    by simp
  have lines: "codeLines False (splitLines ?open) = [''let a = 1;'']"
    by (simp add: fence_def lf_def startsWith_def trim_def isWhiteSpace_def)
  then have someLines: "codeLines False (splitLines ?open) \<noteq> []"
    by simp
  have scanned: "extractCodeFromResponse ?open (Some ''ts'') = ''let a = 1;''"
    using extractCodeFromResponse_cases [where src = "?open" and lang = "Some ''ts''"]
      unclosed lines
    by (simp add: trim_def isWhiteSpace_def)
  show ?thesis
    by (intro conjI)
      (fact block first plain noLines whole unclosed given someLines scanned)+
qed

section \<open>Streaming\<close>

lemma splitLines_nonempty: "splitLines s \<noteq> []"
  by (induction s) (auto split: list.splits)

lemma splitLines_append:
  "splitLines (a @ b) = butlast (splitLines a) @ splitLines (last (splitLines a) @ b)"
proof (induction a)
  case Nil
  show ?case by simp
next
  case (Cons c a)
  show ?case
  proof (cases "c = lf")
    case True
    then show ?thesis
      using Cons.IH splitLines_nonempty [of a] by simp
  next
    case False
    obtain l ls where lls: "splitLines a = l # ls"
      using splitLines_nonempty [of a] by (cases "splitLines a") auto
    show ?thesis
    proof (cases ls)
      case Nil
      with lls Cons.IH have "splitLines (a @ b) = splitLines (l @ b)" by simp
      with False lls Nil show ?thesis by simp
    next
      case (Cons l' ls')
      with lls Cons.IH
      have "splitLines (a @ b) = l # butlast ls @ splitLines (last ls @ b)" by simp
      with False lls Cons show ?thesis by simp
    qed
  qed
qed

lemma splitLines_lines_no_lf: "l \<in> set (splitLines s) \<Longrightarrow> lf \<notin> set l"
proof (induction s arbitrary: l)
  case Nil
  then show ?case by simp
next
  case (Cons c s)
  obtain x xs where x: "splitLines s = x # xs"
    using splitLines_nonempty [of s] by (cases "splitLines s") auto
  show ?case
  proof (cases "c = lf")
    case True
    with Cons show ?thesis by auto
  next
    case False
    with Cons.prems x have "l = c # x \<or> l \<in> set xs" by simp
    then show ?thesis
      using Cons.IH [of x] Cons.IH [of l] x False by auto
  qed
qed

lemma splitLines_no_lf: "lf \<notin> set s \<Longrightarrow> splitLines s = [s]"
  by (induction s) auto

lemma last_splitLines_no_lf: "lf \<notin> set (last (splitLines s))"
  using splitLines_lines_no_lf [of "last (splitLines s)" s] splitLines_nonempty [of s]
  by simp

lemma processLines_append:
  "processLines P m (xs @ ys) =
     (case processLines P m xs of
        (a, True) \<Rightarrow> (a, True)
      | (a, False) \<Rightarrow> (case processLines P m ys of (b, d) \<Rightarrow> (a @ b, d)))"
  by (induction xs) (auto split: prod.splits option.splits bool.splits)

lemma processLines_spec:
  "processLines P m ls =
     (List.map_filter (parseChunk P m) (beforeSentinel (dataChunks ls)),
      ''[DONE]'' \<in> set (dataChunks ls))"
  by (induction ls)
    (auto simp: dataChunks_def beforeSentinel_def isDataLine_def List.map_filter_simps
      split: option.splits)

lemma readLoop_spec:
  "lf \<notin> set buffer \<Longrightarrow>
   readLoop P m buffer rs failure =
     (case processLines P m (completeLines (buffer @ concat rs)) of
        (ys, True) \<Rightarrow> (ys, SentinelReached)
      | (ys, False) \<Rightarrow> (ys, readerEnd failure))"
proof (induction rs arbitrary: buffer)
  case Nil
  then show ?case
    by (simp add: completeLines_def splitLines_no_lf readerEnd_def)
next
  case (Cons chunk rs)
  let ?lines = "splitLines (buffer @ chunk)"
  have rest: "lf \<notin> set (last ?lines)"
    by (rule last_splitLines_no_lf)
  have "splitLines (buffer @ concat (chunk # rs))
      = butlast ?lines @ splitLines (last ?lines @ concat rs)"
    using splitLines_append [of "buffer @ chunk" "concat rs"] by simp
  then have complete: "completeLines (buffer @ concat (chunk # rs))
      = butlast ?lines @ completeLines (last ?lines @ concat rs)"
    by (simp add: completeLines_def butlast_append splitLines_nonempty)
  show ?case
    unfolding complete processLines_append
    by (simp add: Cons.IH [OF rest] split: prod.splits bool.splits)
qed

text \<open>
  C7. When the endpoint answers the streaming request with a response that is \<open>ok\<close> and
  has a body, then whatever the texts read (however the stream is cut into reads),
  \<open>streamResponse\<close> yields the responses of the well-formed data chunks that come before
  the sentinel, in the order of the stream, and passes over the others; it ends at the
  sentinel when there is one, else when the reader is done. It raises only if a read of the
  transport fails before a sentinel was seen, never for a chunk.
\<close>

theorem streamResponse_yields_wellformed_chunks:
  "fetch (formatRequest prompt (options\<lparr>stream := Some True\<rparr>)) True = Responded r
   \<and> ok r \<and> body r = Some bs \<longrightarrow>
   streamResponse JSON_parse fetch prompt options =
     (List.map_filter
        (parseChunk JSON_parse (if truthy (model options) then the (model options) else ''qwen-turbo''))
        (beforeSentinel (dataChunks (completeLines (concat (reads bs))))),
      if ''[DONE]'' \<in> set (dataChunks (completeLines (concat (reads bs))))
      then SentinelReached else readerEnd (readFailure bs))"
proof
  assume answer: "fetch (formatRequest prompt (options\<lparr>stream := Some True\<rparr>)) True
      = Responded r \<and> ok r \<and> body r = Some bs"
  let ?mdl = "if truthy (model options) then the (model options) else ''qwen-turbo''"
  have "streamResponse JSON_parse fetch prompt options
      = readLoop JSON_parse ?mdl [] (reads bs) (readFailure bs)"
    using answer by (simp add: streamResponse_def makeRequest_def)
  also have "\<dots> = (case processLines JSON_parse ?mdl (completeLines (concat (reads bs))) of
        (ys, True) \<Rightarrow> (ys, SentinelReached)
      | (ys, False) \<Rightarrow> (ys, readerEnd (readFailure bs)))"
    using readLoop_spec [of "[]" JSON_parse ?mdl "reads bs" "readFailure bs"] by simp
  also have "\<dots> = (List.map_filter (parseChunk JSON_parse ?mdl)
        (beforeSentinel (dataChunks (completeLines (concat (reads bs))))),
      if ''[DONE]'' \<in> set (dataChunks (completeLines (concat (reads bs))))
      then SentinelReached else readerEnd (readFailure bs))"
    by (simp add: processLines_spec)
  finally show "streamResponse JSON_parse fetch prompt options =
     (List.map_filter (parseChunk JSON_parse ?mdl)
        (beforeSentinel (dataChunks (completeLines (concat (reads bs))))),
      if ''[DONE]'' \<in> set (dataChunks (completeLines (concat (reads bs))))
      then SentinelReached else readerEnd (readFailure bs))" .
qed

theorem streamResponse_yields_wellformed_chunks_witness:
  "ok (createMockResponse True 200 (Inl ''not read'')
         (Some \<lparr>reads = sampleReads, readFailure = None\<rparr>))
 \<and> map content (fst (streamResponse sampleParse
       (respondWith (createMockResponse True 200 (Inl ''not read'')
          (Some \<lparr>reads = sampleReads, readFailure = None\<rparr>))) ''hello'' noOptions))
     = [''Hel'', ''lo'']
 \<and> snd (streamResponse sampleParse
       (respondWith (createMockResponse True 200 (Inl ''not read'')
          (Some \<lparr>reads = sampleReads, readFailure = None\<rparr>))) ''hello'' noOptions)
     = SentinelReached"
proof -
  let ?r = "createMockResponse True 200 (Inl ''not read'')
      (Some \<lparr>reads = sampleReads, readFailure = None\<rparr>)"
  have answer: "ok ?r" "body ?r = Some \<lparr>reads = sampleReads, readFailure = None\<rparr>"
    by (simp_all add: createMockResponse_def)
  have chunks: "dataChunks (completeLines (concat sampleReads))
      = [sampleChunk ''Hel'', ''{oops'', ''{}'', sampleChunk ''lo'', ''[DONE]'',
         sampleChunk ''Hel'']"
    by (simp add: sampleReads_def sampleChunk_def completeLines_def dataChunks_def
        isDataLine_def lf_def trim_def isWhiteSpace_def startsWith_def)
  have before: "beforeSentinel (dataChunks (completeLines (concat sampleReads)))
      = [sampleChunk ''Hel'', ''{oops'', ''{}'', sampleChunk ''lo'']"
    unfolding chunks by (simp add: beforeSentinel_def sampleChunk_def)
  have parsed: "map content (List.map_filter (parseChunk sampleParse ''qwen-turbo'')
        [sampleChunk ''Hel'', ''{oops'', ''{}'', sampleChunk ''lo''])
      = [''Hel'', ''lo'']"
  proof -
    have first: "parseChunk sampleParse ''qwen-turbo'' (sampleChunk ''Hel'')
        = Some \<lparr>content = ''Hel'', responseProvider = ''qwen'', responseModel = ''qwen-turbo'',
                  tokensUsed = None, finishReason = None,
                  metadata = Some [(''request_id'', None), (''code'', None)]\<rparr>"
      by (simp add: parseChunk_def sampleParse_def parseResponse_oneChoice)
    have second: "parseChunk sampleParse ''qwen-turbo'' (sampleChunk ''lo'')
        = Some \<lparr>content = ''lo'', responseProvider = ''qwen'', responseModel = ''qwen-turbo'',
                  tokensUsed = None, finishReason = None,
                  metadata = Some [(''request_id'', None), (''code'', None)]\<rparr>"
      by (simp add: parseChunk_def sampleParse_def sampleChunk_def parseResponse_oneChoice)
    have notJson: "parseChunk sampleParse ''qwen-turbo'' ''{oops'' = None"
      by (simp add: parseChunk_def sampleParse_def sampleChunk_def)
    have noChoice: "parseChunk sampleParse ''qwen-turbo'' ''{}'' = None"
      by (simp add: parseChunk_def sampleParse_def sampleChunk_def parseResponse_def)
    show ?thesis
      by (simp add: List.map_filter_simps first second notJson noChoice)
  qed
  have sentinel: "''[DONE]'' \<in> set (dataChunks (completeLines (concat sampleReads)))"
    unfolding chunks by simp
  have result: "streamResponse sampleParse (respondWith ?r) ''hello'' noOptions
      = (List.map_filter (parseChunk sampleParse ''qwen-turbo'')
           [sampleChunk ''Hel'', ''{oops'', ''{}'', sampleChunk ''lo''], SentinelReached)"
    using streamResponse_yields_wellformed_chunks [where fetch = "respondWith ?r" and r = "?r"
        and bs = "\<lparr>reads = sampleReads, readFailure = None\<rparr>" and JSON_parse = sampleParse
        and prompt = "''hello''" and options = noOptions] answer before sentinel
    by (simp add: noOptions_def respondWith_def)
  show ?thesis
    using answer(1) parsed by (simp add: result)
qed

end
